theory Spec2Isabelle
  imports Main "HOL-Library.AList"
begin

section \<open>Data model of \<open>ray/autoscaler/commands.py\<close>\<close>

text \<open>
  Python dictionaries are association lists with distinct keys in insertion order:
  \<open>d[k] = v\<close> and \<open>d.update({k: v})\<close> are \<open>AList.update k v d\<close>,
  \<open>d.get(k)\<close> is \<open>map_of d k\<close>, \<open>d.pop(k, None)\<close> is \<open>AList.delete k d\<close>.
\<close>

type_synonym node_id = string
type_synonym pydict = "(string \<times> string) list"

text \<open>
  Modelled from the spec: the tag constants are imported from \<open>ray.autoscaler.tags\<close>,
  which is not part of the sources; the spec names the tag set of a node as
  role, launch hash and name, with role either head or worker.
\<close>

datatype tag_key = TAG_RAY_NODE_TYPE | TAG_RAY_LAUNCH_CONFIG | TAG_RAY_NODE_NAME | TAG_OTHER string

type_synonym tags = "(tag_key \<times> string) list"

definition NODE_TYPE_HEAD :: string where
  "NODE_TYPE_HEAD = ''head''"

definition NODE_TYPE_WORKER :: string where
  "NODE_TYPE_WORKER = ''worker''"

record provider_config =
  ptype :: string
  use_internal_ips :: bool

text \<open>
  The cluster config dictionary, with the keys this file reads or writes.
  \<open>no_restart_key\<close> is the key \<open>"no_restart"\<close> that only the remote copy of the
  config receives.
\<close>

record cluster_config =
  cluster_name :: string
  provider :: provider_config
  auth :: pydict
  head_node :: pydict
  file_mounts :: pydict
  initialization_commands :: "string list"
  head_setup_commands :: "string list"
  head_start_ray_commands :: "string list"
  min_workers :: "int option"
  docker :: "pydict option"
  no_restart_key :: "bool option"

text \<open>The keyword arguments of the \<open>NodeUpdaterThread\<close> constructor.\<close>

record updater_args =
  ua_node_id :: node_id
  ua_provider_config :: provider_config
  ua_auth_config :: pydict
  ua_cluster_name :: string
  ua_file_mounts :: pydict
  ua_initialization_commands :: "string list"
  ua_setup_commands :: "string list"
  ua_ray_start_commands :: "string list"
  ua_runtime_hash :: string
  ua_docker_config :: "pydict option"

datatype error =
    RuntimeError string
  | Abort
  | KeyError string
  | SystemExit int
  | ValueError
  | AssertionError string
  | NotImplementedError
  | JSONDecodeError
  | ConfigInvalid

text \<open>
  Every call the program makes on an external collaborator (provider, updater, command
  runner, \<open>time.sleep\<close>) is recorded, in order, with the answer the collaborator gave
  where the program branches on it.
\<close>

datatype event =
    EvGetNodeProvider provider_config string
  | EvNonTerminatedNodes tags "node_id list"
  | EvNodeTags node_id tags
  | EvCreateNode pydict tags nat
  | EvTerminateNode node_id
  | EvTerminateNodes "node_id list"
  | EvInternalIp node_id
  | EvExternalIp node_id
  | EvCleanup
  | EvSleep nat
  | EvUpdate updater_args
  | EvShutdownAfterNextCmd updater_args
  | EvRun updater_args "string option" "int list option" bool string
  | EvRsyncUp updater_args string string
  | EvRsyncDown updater_args string string
  | EvSyncFileMounts updater_args bool
  | EvBootstrapConfig cluster_config

text \<open>
  The state the program runs in: the state of the provider and of the machines behind
  it (\<open>pstate\<close>, of a type the program knows nothing about), the clock read by
  \<open>time.time()\<close> in seconds (advanced by \<open>time.sleep\<close>), the local files written, the
  answers the operator will give to the confirmation prompts, the numbers the random
  generator will draw, and the trace of calls made so far.
\<close>

record 'p world =
  pstate :: 'p
  clock :: nat
  files :: pydict
  answers :: "bool list"
  rng :: "nat list"
  trace :: "event list"

text \<open>
  The external collaborators, none of them in this file: the provider's methods
  (\<open>node_providers t\<close> tells whether \<open>NODE_PROVIDERS\<close> has an importer for the type
  \<open>t\<close>), the helpers of \<open>ray.autoscaler.util\<close> (\<open>validate_config\<close> is false where
  the helper raises), the updater and its command runner, and the library functions
  whose result the program only passes on: \<open>yaml_load_file f\<close> is
  \<open>yaml.safe_load(open(f).read())\<close>, \<open>json_loads\<close> is \<open>None\<close> where \<open>json.loads\<close>
  raises, \<open>sha1_of_config c\<close> is the SHA-1 hex digest of
  \<open>json.dumps([c], sort_keys=True)\<close>.
\<close>

record 'p env =
  non_terminated_nodes :: "tags \<Rightarrow> 'p \<Rightarrow> node_id list \<times> 'p"
  node_tags :: "node_id \<Rightarrow> 'p \<Rightarrow> tags"
  create_node :: "pydict \<Rightarrow> tags \<Rightarrow> nat \<Rightarrow> 'p \<Rightarrow> 'p"
  terminate_node :: "node_id \<Rightarrow> 'p \<Rightarrow> 'p"
  terminate_nodes :: "node_id list \<Rightarrow> 'p \<Rightarrow> 'p"
  internal_ip :: "node_id \<Rightarrow> 'p \<Rightarrow> string"
  external_ip :: "node_id \<Rightarrow> 'p \<Rightarrow> string"
  provider_cleanup :: "'p \<Rightarrow> 'p"
  provider_bootstrap_config :: "cluster_config \<Rightarrow> 'p \<Rightarrow> cluster_config \<times> 'p"
  node_providers :: "string \<Rightarrow> bool"
  hash_launch_conf :: "pydict \<Rightarrow> pydict \<Rightarrow> string"
  hash_runtime_conf :: "pydict \<Rightarrow> cluster_config \<Rightarrow> string"
  prepare_config :: "cluster_config \<Rightarrow> cluster_config"
  validate_config :: "cluster_config \<Rightarrow> bool"
  updater_run :: "updater_args \<Rightarrow> 'p \<Rightarrow> int \<times> 'p"
  runner_is_docker :: "updater_args \<Rightarrow> bool"
  runner_shutdown_after_next_cmd :: "updater_args \<Rightarrow> 'p \<Rightarrow> 'p"
  runner_run :: "updater_args \<Rightarrow> string option \<Rightarrow> int list option \<Rightarrow> bool \<Rightarrow> string \<Rightarrow> 'p
                   \<Rightarrow> (error + string) \<times> 'p"
  updater_rsync_up :: "updater_args \<Rightarrow> string \<Rightarrow> string \<Rightarrow> 'p \<Rightarrow> 'p"
  updater_rsync_down :: "updater_args \<Rightarrow> string \<Rightarrow> string \<Rightarrow> 'p \<Rightarrow> 'p"
  updater_sync_file_mounts :: "updater_args \<Rightarrow> bool \<Rightarrow> 'p \<Rightarrow> 'p"
  yaml_load_file :: "string \<Rightarrow> cluster_config"
  json_dumps :: "cluster_config \<Rightarrow> string"
  json_loads :: "string \<Rightarrow> cluster_config option"
  sha1_of_config :: "cluster_config \<Rightarrow> string"
  gettempdir :: string
  named_temporary_file :: "string \<Rightarrow> string"
  quote :: "string \<Rightarrow> string"

section \<open>Calls on the collaborators\<close>

definition log :: "event \<Rightarrow> 'p world \<Rightarrow> 'p world" where
  "log e w = w\<lparr>trace := trace w @ [e]\<rparr>"

definition get_node_provider :: "provider_config \<Rightarrow> string \<Rightarrow> 'p world \<Rightarrow> 'p world" where
  "get_node_provider pc name w = log (EvGetNodeProvider pc name) w"

definition call_non_terminated_nodes ::
  "'p env \<Rightarrow> tags \<Rightarrow> 'p world \<Rightarrow> node_id list \<times> 'p world" where
  "call_non_terminated_nodes env flt w =
     (case non_terminated_nodes env flt (pstate w) of
        (nodes, p) \<Rightarrow> (nodes, log (EvNonTerminatedNodes flt nodes) (w\<lparr>pstate := p\<rparr>)))"

definition call_node_tags :: "'p env \<Rightarrow> node_id \<Rightarrow> 'p world \<Rightarrow> tags \<times> 'p world" where
  "call_node_tags env n w =
     (let t = node_tags env n (pstate w) in (t, log (EvNodeTags n t) w))"

definition call_create_node ::
  "'p env \<Rightarrow> pydict \<Rightarrow> tags \<Rightarrow> nat \<Rightarrow> 'p world \<Rightarrow> 'p world" where
  "call_create_node env node_config tgs cnt w =
     log (EvCreateNode node_config tgs cnt)
       (w\<lparr>pstate := create_node env node_config tgs cnt (pstate w)\<rparr>)"

definition call_terminate_node :: "'p env \<Rightarrow> node_id \<Rightarrow> 'p world \<Rightarrow> 'p world" where
  "call_terminate_node env n w =
     log (EvTerminateNode n) (w\<lparr>pstate := terminate_node env n (pstate w)\<rparr>)"

definition call_terminate_nodes :: "'p env \<Rightarrow> node_id list \<Rightarrow> 'p world \<Rightarrow> 'p world" where
  "call_terminate_nodes env ns w =
     log (EvTerminateNodes ns) (w\<lparr>pstate := terminate_nodes env ns (pstate w)\<rparr>)"

definition call_cleanup :: "'p env \<Rightarrow> 'p world \<Rightarrow> 'p world" where
  "call_cleanup env w = log EvCleanup (w\<lparr>pstate := provider_cleanup env (pstate w)\<rparr>)"

definition call_node_ip :: "'p env \<Rightarrow> cluster_config \<Rightarrow> node_id \<Rightarrow> 'p world \<Rightarrow> string \<times> 'p world" where
  "call_node_ip env config n w =
     (if use_internal_ips (provider config)
      then (internal_ip env n (pstate w), log (EvInternalIp n) w)
      else (external_ip env n (pstate w), log (EvExternalIp n) w))"

definition call_updater :: "'p env \<Rightarrow> updater_args \<Rightarrow> 'p world \<Rightarrow> int \<times> 'p world" where
  "call_updater env a w =
     (case updater_run env a (pstate w) of
        (exitcode, p) \<Rightarrow> (exitcode, log (EvUpdate a) (w\<lparr>pstate := p\<rparr>)))"

definition sleep :: "nat \<Rightarrow> 'p world \<Rightarrow> 'p world" where
  "sleep n w = log (EvSleep n) (w\<lparr>clock := clock w + n\<rparr>)"

definition os_path_exists :: "'p world \<Rightarrow> string \<Rightarrow> bool" where
  "os_path_exists w path = (map_of (files w) path \<noteq> None)"

definition read_file :: "'p world \<Rightarrow> string \<Rightarrow> string" where
  "read_file w path = (case map_of (files w) path of None \<Rightarrow> [] | Some content \<Rightarrow> content)"

definition write_file :: "string \<Rightarrow> string \<Rightarrow> 'p world \<Rightarrow> 'p world" where
  "write_file path content w = w\<lparr>files := AList.update path content (files w)\<rparr>"

text \<open>
  \<open>confirm(msg, yes)\<close>: nothing when \<open>yes\<close>; otherwise \<open>click.confirm(msg, abort=True)\<close>
  asks the operator and raises \<open>Abort\<close> on a refusal (or when no answer comes).
\<close>

definition confirm :: "string \<Rightarrow> bool \<Rightarrow> 'p world \<Rightarrow> (error + unit) \<times> 'p world" where
  "confirm msg yes w =
     (if yes then (Inr (), w)
      else (case answers w of
              [] \<Rightarrow> (Inl Abort, w)
            | a # rest \<Rightarrow> ((if a then Inr () else Inl Abort), w\<lparr>answers := rest\<rparr>)))"

section \<open>\<open>get_or_create_head_node\<close>\<close>

text \<open>Python's \<open>not head_node\<close>: true for \<open>None\<close> and for the empty string.\<close>

definition py_not :: "string option \<Rightarrow> bool" where
  "py_not x = (case x of None \<Rightarrow> True | Some s \<Rightarrow> s = [])"

text \<open>
  Lines 276 to 304: query the head nodes, ask for confirmation, and create the head node
  when there is none or when the launch hash recorded on the first one differs from the
  fresh one, terminating the old node first. The result is the dictionary
  \<open>head_node_tags\<close> as this part leaves it: the creation adds two keys to it in place.
\<close>

definition launch_head_node ::
  "'p env \<Rightarrow> cluster_config \<Rightarrow> tags \<Rightarrow> string \<Rightarrow> 'p world \<Rightarrow> tags \<times> 'p world" where
  "launch_head_node env config head_node_tags launch_hash w =
     (let head_node_tags1 = AList.update TAG_RAY_LAUNCH_CONFIG launch_hash head_node_tags;
          head_node_tags2 = AList.update TAG_RAY_NODE_NAME
                              (''ray-'' @ cluster_name config @ ''-head'') head_node_tags1
      in (head_node_tags2, call_create_node env (head_node config) head_node_tags2 1 w))"

definition create_or_replace_head ::
  "'p env \<Rightarrow> cluster_config \<Rightarrow> bool \<Rightarrow> bool \<Rightarrow> 'p world \<Rightarrow> (error + tags) \<times> 'p world" where
  "create_or_replace_head env config no_restart yes w =
     (let head_node_tags = [(TAG_RAY_NODE_TYPE, NODE_TYPE_HEAD)] in
      case call_non_terminated_nodes env head_node_tags w of (nodes, w1) \<Rightarrow>
      let head_node_id = (if length nodes > 0 then Some (nodes ! 0) else None) in
      case (if py_not head_node_id then confirm ''This will create a new cluster'' yes w1
            else if \<not> no_restart then confirm ''This will restart cluster services'' yes w1
            else (Inr (), w1)) of
        (Inl e, w2) \<Rightarrow> (Inl e, w2)
      | (Inr _, w2) \<Rightarrow>
          let launch_hash = hash_launch_conf env (head_node config) (auth config) in
          (case head_node_id of
             None \<Rightarrow>
               (case launch_head_node env config head_node_tags launch_hash w2 of
                  (t, w3) \<Rightarrow> (Inr t, w3))
           | Some h \<Rightarrow>
               (case call_node_tags env h w2 of (node_tgs, w3) \<Rightarrow>
                  if map_of node_tgs TAG_RAY_LAUNCH_CONFIG \<noteq> Some launch_hash then
                    (case confirm ''Head node config out-of-date. It will be terminated'' yes w3 of
                       (Inl e, w4) \<Rightarrow> (Inl e, w4)
                     | (Inr _, w4) \<Rightarrow>
                         (case launch_head_node env config head_node_tags launch_hash
                                 (call_terminate_node env h w4) of
                            (t, w5) \<Rightarrow> (Inr t, w5)))
                  else (Inr head_node_tags, w3))))"

text \<open>
  Lines 306 to 315: poll until the provider reports exactly one node under the filter
  \<open>head_node_tags\<close>, giving up once more than 50 seconds have passed since \<open>start\<close>.
\<close>

function wait_for_head ::
  "'p env \<Rightarrow> tags \<Rightarrow> nat \<Rightarrow> 'p world \<Rightarrow> (error + node_id) \<times> 'p world" where
  "wait_for_head env head_node_tags start w =
     (if clock w - start > 50 then (Inl (RuntimeError ''Failed to create head node.''), w)
      else (case call_non_terminated_nodes env head_node_tags w of
              (nodes, w1) \<Rightarrow>
                if length nodes = 1 then (Inr (nodes ! 0), w1)
                else wait_for_head env head_node_tags start (sleep 1 w1)))"
  by pat_completeness auto
termination
  by (relation "measure (\<lambda>(env, head_node_tags, start, w). 51 + start - clock w)")
     (auto simp: call_non_terminated_nodes_def sleep_def log_def split: prod.splits)

declare wait_for_head.simps [simp del]

text \<open>
  Lines 323 to 336: the copy of the config that is written for the head node
  (\<open>copy.deepcopy\<close>, so the edits below do not reach \<open>config\<close>).
\<close>

definition make_remote_config :: "cluster_config \<Rightarrow> bool \<Rightarrow> cluster_config" where
  "make_remote_config config no_restart =
     (let remote_config0 = config;
          remote_config1 = remote_config0
            \<lparr>auth := AList.delete ''ssh_proxy_command'' (auth remote_config0)\<rparr>;
          remote_config2 =
            (if ptype (provider config) \<noteq> ''kubernetes''
             then remote_config1
               \<lparr>auth := AList.update ''ssh_private_key'' ''~/ray_bootstrap_key.pem''
                          (auth remote_config1)\<rparr>
             else remote_config1);
          new_mounts = fold (\<lambda>remote_path m. AList.update remote_path remote_path m)
                         (map fst (file_mounts config)) []
      in remote_config2\<lparr>file_mounts := new_mounts, no_restart_key := Some no_restart\<rparr>)"

text \<open>
  Lines 339 to 349: the remote config is written to a temporary file, and
  \<open>config["file_mounts"]\<close>, the dictionary of the caller's config, is updated in place
  with that file and (unless the provider is kubernetes) with the private key. The
  second component of the result is the caller's config after these updates.
\<close>

definition inject_bootstrap_files ::
  "'p env \<Rightarrow> cluster_config \<Rightarrow> cluster_config \<Rightarrow> 'p world
     \<Rightarrow> (error + unit) \<times> cluster_config \<times> 'p world" where
  "inject_bootstrap_files env config remote_config w =
     (let remote_config_file = named_temporary_file env ''ray-bootstrap-'';
          w1 = write_file remote_config_file (json_dumps env remote_config) w;
          config1 = config\<lparr>file_mounts :=
                      AList.update ''~/ray_bootstrap_config.yaml'' remote_config_file
                        (file_mounts config)\<rparr>
      in if ptype (provider config1) \<noteq> ''kubernetes'' then
           (case map_of (auth config1) ''ssh_private_key'' of
              None \<Rightarrow> (Inl (KeyError ''ssh_private_key''), config1, w1)
            | Some key \<Rightarrow>
                (Inr (),
                 config1\<lparr>file_mounts :=
                   AList.update ''~/ray_bootstrap_key.pem'' key (file_mounts config1)\<rparr>,
                 w1))
         else (Inr (), config1, w1))"

text \<open>
  Lines 351 to 359: the pair (\<open>init_commands\<close>, \<open>ray_start_commands\<close>), which the updater
  receives as \<open>setup_commands\<close> and \<open>ray_start_commands\<close>.
\<close>

definition select_commands :: "cluster_config \<Rightarrow> bool \<Rightarrow> bool \<Rightarrow> string list \<times> string list" where
  "select_commands config no_restart restart_only =
     (if restart_only then ([], head_start_ray_commands config)
      else if no_restart then (head_setup_commands config, [])
      else (head_setup_commands config, head_start_ray_commands config))"

text \<open>
  Lines 364 to 393: build the updater, run it to completion, refresh the node cache, read
  the node's address and leave the process when the updater failed. The warning of
  \<open>warn_about_bad_start_command\<close> and the messages printed at the end only log.
\<close>

definition head_updater_args ::
  "cluster_config \<Rightarrow> node_id \<Rightarrow> string list \<Rightarrow> string list \<Rightarrow> string \<Rightarrow> updater_args" where
  "head_updater_args config head init_commands ray_start_commands runtime_hash =
     \<lparr>ua_node_id = head,
      ua_provider_config = provider config,
      ua_auth_config = auth config,
      ua_cluster_name = cluster_name config,
      ua_file_mounts = file_mounts config,
      ua_initialization_commands = initialization_commands config,
      ua_setup_commands = init_commands,
      ua_ray_start_commands = ray_start_commands,
      ua_runtime_hash = runtime_hash,
      ua_docker_config = docker config\<rparr>"

definition update_head_node ::
  "'p env \<Rightarrow> cluster_config \<Rightarrow> node_id \<Rightarrow> tags \<Rightarrow> string list \<Rightarrow> string list \<Rightarrow> string
     \<Rightarrow> 'p world \<Rightarrow> (error + unit) \<times> 'p world" where
  "update_head_node env config head head_node_tags init_commands ray_start_commands
       runtime_hash w =
     (case call_updater env
             (head_updater_args config head init_commands ray_start_commands runtime_hash) w of
        (exitcode, w1) \<Rightarrow>
          (case call_non_terminated_nodes env head_node_tags w1 of (nodes, w2) \<Rightarrow>
             (case call_node_ip env config head w2 of (head_node_ip, w3) \<Rightarrow>
                if exitcode \<noteq> 0 then (Inl (SystemExit 1), w3) else (Inr (), w3))))"

text \<open>
  The whole function. It returns nothing; the result here is the error raised, if any,
  with the caller's config object as the call leaves it and the state of the world.
  \<open>provider.cleanup()\<close> runs on every way out (\<open>finally\<close>).
\<close>

definition head_node_body ::
  "'p env \<Rightarrow> cluster_config \<Rightarrow> bool \<Rightarrow> bool \<Rightarrow> bool \<Rightarrow> 'p world
     \<Rightarrow> (error + unit) \<times> cluster_config \<times> 'p world" where
  "head_node_body env config no_restart restart_only yes w =
     (case create_or_replace_head env config no_restart yes w of
        (Inl e, w1) \<Rightarrow> (Inl e, config, w1)
      | (Inr head_node_tags, w1) \<Rightarrow>
          (case wait_for_head env head_node_tags (clock w1) w1 of
             (Inl e, w2) \<Rightarrow> (Inl e, config, w2)
           | (Inr head, w2) \<Rightarrow>
               let runtime_hash = hash_runtime_conf env (file_mounts config) config;
                   remote_config = make_remote_config config no_restart
               in (case inject_bootstrap_files env config remote_config w2 of
                     (Inl e, config1, w3) \<Rightarrow> (Inl e, config1, w3)
                   | (Inr _, config1, w3) \<Rightarrow>
                       (case select_commands config1 no_restart restart_only of
                          (init_commands, ray_start_commands) \<Rightarrow>
                            (case update_head_node env config1 head head_node_tags
                                    init_commands ray_start_commands runtime_hash w3 of
                               (r, w4) \<Rightarrow> (r, config1, w4))))))"

definition get_or_create_head_node ::
  "'p env \<Rightarrow> cluster_config \<Rightarrow> string \<Rightarrow> bool \<Rightarrow> bool \<Rightarrow> bool \<Rightarrow> string option \<Rightarrow> 'p world
     \<Rightarrow> (error + unit) \<times> cluster_config \<times> 'p world" where
  "get_or_create_head_node env config config_file no_restart restart_only yes
       override_cluster_name w =
     (case head_node_body env config no_restart restart_only yes
             (get_node_provider (provider config) (cluster_name config) w) of
        (r, config1, w1) \<Rightarrow> (r, config1, call_cleanup env w1))"

section \<open>\<open>_bootstrap_config\<close>\<close>

text \<open>
  A leading underscore is not allowed in a name here: \<open>_bootstrap_config\<close>,
  \<open>_get_head_node\<close>, \<open>_get_worker_nodes\<close> and \<open>_exec\<close> are written with the prefix
  \<open>private_\<close>.
\<close>

definition call_bootstrap_config ::
  "'p env \<Rightarrow> cluster_config \<Rightarrow> 'p world \<Rightarrow> cluster_config \<times> 'p world" where
  "call_bootstrap_config env config w =
     (case provider_bootstrap_config env config (pstate w) of
        (resolved_config, p) \<Rightarrow>
          (resolved_config, log (EvBootstrapConfig config) (w\<lparr>pstate := p\<rparr>)))"

text \<open>
  Lines 106 to 109: the path of the cache file for a prepared config,
  \<open>os.path.join(tempfile.gettempdir(), "ray-config-" + digest)\<close>.
\<close>

definition config_cache_key :: "'p env \<Rightarrow> cluster_config \<Rightarrow> string" where
  "config_cache_key env config1 =
     gettempdir env @ ''/'' @ (''ray-config-'' @ sha1_of_config env config1)"

definition private_bootstrap_config ::
  "'p env \<Rightarrow> cluster_config \<Rightarrow> bool \<Rightarrow> 'p world \<Rightarrow> (error + cluster_config) \<times> 'p world" where
  "private_bootstrap_config env config no_config_cache w =
     (let config1 = prepare_config env config;
          cache_key = config_cache_key env config1
      in if os_path_exists w cache_key \<and> \<not> no_config_cache then
           (case json_loads env (read_file w cache_key) of
              None \<Rightarrow> (Inl JSONDecodeError, w)
            | Some cached \<Rightarrow> (Inr cached, w))
         else if \<not> validate_config env config1 then (Inl ConfigInvalid, w)
         else if \<not> node_providers env (ptype (provider config1))
         then (Inl NotImplementedError, w)
         else (case call_bootstrap_config env config1 w of
                 (resolved_config, w1) \<Rightarrow>
                   (Inr resolved_config,
                    if \<not> no_config_cache
                    then write_file cache_key (json_dumps env resolved_config) w1
                    else w1)))"

section \<open>\<open>teardown_cluster\<close>\<close>

text \<open>
  \<open>random.sample(population, k)\<close> of the Python library: it raises \<open>ValueError\<close> when
  \<open>k\<close> is negative or larger than the population, and otherwise returns \<open>k\<close> elements
  taken at distinct positions. The positions are drawn from the numbers in \<open>rng\<close>
  (position 0 once they are used up).
\<close>

fun sample_from :: "'a list \<Rightarrow> nat \<Rightarrow> nat list \<Rightarrow> 'a list \<times> nat list" where
  "sample_from pool 0 draws = ([], draws)"
| "sample_from [] (Suc k) draws = ([], draws)"
| "sample_from (x # xs) (Suc k) draws =
     (let j = (case draws of [] \<Rightarrow> 0 | d # ds \<Rightarrow> d mod length (x # xs));
          draws1 = (case draws of [] \<Rightarrow> [] | d # ds \<Rightarrow> ds)
      in case sample_from (take j (x # xs) @ drop (Suc j) (x # xs)) k draws1 of
           (chosen, draws2) \<Rightarrow> ((x # xs) ! j # chosen, draws2))"

definition random_sample :: "'a list \<Rightarrow> int \<Rightarrow> 'p world \<Rightarrow> (error + 'a list) \<times> 'p world" where
  "random_sample population k w =
     (if k < 0 \<or> int (length population) < k then (Inl ValueError, w)
      else (case sample_from population (nat k) (rng w) of
              (chosen, draws) \<Rightarrow> (Inr chosen, w\<lparr>rng := draws\<rparr>)))"

text \<open>Lines 159 to 178, the local function \<open>remaining_nodes\<close>.\<close>

definition remaining_nodes ::
  "'p env \<Rightarrow> cluster_config \<Rightarrow> bool \<Rightarrow> bool \<Rightarrow> 'p world \<Rightarrow> (error + node_id list) \<times> 'p world" where
  "remaining_nodes env config workers_only keep_min_workers w =
     (case call_non_terminated_nodes env [(TAG_RAY_NODE_TYPE, NODE_TYPE_WORKER)] w of
        (workers, w1) \<Rightarrow>
          (case (if keep_min_workers
                 then random_sample workers
                        (int (length workers)
                           - (case min_workers config of None \<Rightarrow> 0 | Some m \<Rightarrow> m)) w1
                 else (Inr workers, w1)) of
             (Inl e, w2) \<Rightarrow> (Inl e, w2)
           | (Inr workers1, w2) \<Rightarrow>
               if workers_only then (Inr workers1, w2)
               else (case call_non_terminated_nodes env [(TAG_RAY_NODE_TYPE, NODE_TYPE_HEAD)] w2 of
                       (head, w3) \<Rightarrow> (Inr (head @ workers1), w3))))"

text \<open>
  Lines 184 to 189, the loop \<open>while A\<close>. Nothing bounds it, so it is a partial function:
  \<open>None\<close> is a run that never leaves the loop.
\<close>

partial_function (option) teardown_loop ::
  "'p env \<Rightarrow> cluster_config \<Rightarrow> bool \<Rightarrow> bool \<Rightarrow> node_id list \<Rightarrow> 'p world
     \<Rightarrow> ((error + unit) \<times> 'p world) option" where
  "teardown_loop env config workers_only keep_min_workers A w =
     (if A = [] then Some (Inr (), w)
      else (case remaining_nodes env config workers_only keep_min_workers
                   (sleep 1 (call_terminate_nodes env A w)) of
              (Inl e, w1) \<Rightarrow> Some (Inl e, w1)
            | (Inr A1, w1) \<Rightarrow> teardown_loop env config workers_only keep_min_workers A1 w1))"

declare teardown_loop.simps [code]

text \<open>
  Lines 156 to 191: what \<open>teardown_cluster\<close> does with the provider once the config is
  ready. The config is only read; it is returned as the call leaves it.
\<close>

definition teardown_nodes ::
  "'p env \<Rightarrow> cluster_config \<Rightarrow> bool \<Rightarrow> bool \<Rightarrow> 'p world
     \<Rightarrow> ((error + unit) \<times> cluster_config \<times> 'p world) option" where
  "teardown_nodes env config workers_only keep_min_workers w =
     (case remaining_nodes env config workers_only keep_min_workers
             (get_node_provider (provider config) (cluster_name config) w) of
        (Inl e, w1) \<Rightarrow> Some (Inl e, config, call_cleanup env w1)
      | (Inr A, w1) \<Rightarrow>
          (case teardown_loop env config workers_only keep_min_workers A w1 of
             None \<Rightarrow> None
           | Some (r, w2) \<Rightarrow> Some (r, config, call_cleanup env w2)))"

text \<open>
  The loop in the spec's words, to compare the loop above with: if the target set is
  empty the teardown is over; otherwise a terminate request is issued for all of it,
  one second is slept, the provider is asked again, and the loop goes on with the
  answer. The one other way out is an error raised while asking again.
\<close>

inductive teardown_converges ::
  "'p env \<Rightarrow> cluster_config \<Rightarrow> bool \<Rightarrow> bool \<Rightarrow> node_id list \<Rightarrow> 'p world
     \<Rightarrow> (error + unit) \<Rightarrow> 'p world \<Rightarrow> bool"
  for env :: "'p env" and config :: cluster_config
    and workers_only :: bool and keep_min_workers :: bool where
  nothing_left: "teardown_converges env config workers_only keep_min_workers [] w (Inr ()) w"
| round:
    "A \<noteq> [] \<Longrightarrow>
     remaining_nodes env config workers_only keep_min_workers
       (sleep 1 (call_terminate_nodes env A w)) = (Inr A1, w1) \<Longrightarrow>
     teardown_converges env config workers_only keep_min_workers A1 w1 r w' \<Longrightarrow>
     teardown_converges env config workers_only keep_min_workers A w r w'"
| failed:
    "A \<noteq> [] \<Longrightarrow>
     remaining_nodes env config workers_only keep_min_workers
       (sleep 1 (call_terminate_nodes env A w)) = (Inl e, w') \<Longrightarrow>
     teardown_converges env config workers_only keep_min_workers A w (Inl e) w'"

code_pred teardown_converges .

section \<open>\<open>_get_head_node\<close>, \<open>_get_worker_nodes\<close>, \<open>_exec\<close> and \<open>exec_cluster\<close>\<close>

text \<open>Python's truth value of an optional string: false for \<open>None\<close> and for \<open>""\<close>.\<close>

definition py_bool :: "string option \<Rightarrow> bool" where
  "py_bool x = (\<not> py_not x)"

text \<open>\<open>sep.join(xs)\<close>.\<close>

fun join :: "string \<Rightarrow> string list \<Rightarrow> string" where
  "join sep [] = []"
| "join sep [x] = x"
| "join sep (x # y # ys) = x @ sep @ join sep (y # ys)"

function private_get_head_node ::
  "'p env \<Rightarrow> cluster_config \<Rightarrow> string \<Rightarrow> string option \<Rightarrow> bool \<Rightarrow> 'p world
     \<Rightarrow> (error + node_id) \<times> cluster_config \<times> 'p world" where
  "private_get_head_node env config config_file override_cluster_name create_if_needed w =
     (case call_non_terminated_nodes env [(TAG_RAY_NODE_TYPE, NODE_TYPE_HEAD)]
             (get_node_provider (provider config) (cluster_name config) w) of
        (nodes, w1) \<Rightarrow>
          let w2 = call_cleanup env w1 in
          if length nodes > 0 then (Inr (nodes ! 0), config, w2)
          else if create_if_needed then
            (case get_or_create_head_node env config config_file False False True
                    override_cluster_name w2 of
               (Inl e, config1, w3) \<Rightarrow> (Inl e, config1, w3)
             | (Inr u, config1, w3) \<Rightarrow>
                 private_get_head_node env config1 config_file override_cluster_name False w3)
          else (Inl (RuntimeError (''Head node of cluster ('' @ cluster_name config
                                     @ '') not found!'')), config, w2))"
  by pat_completeness auto
termination
  by (relation "measure (\<lambda>(env, config, config_file, override_cluster_name, create_if_needed, w).
                   if create_if_needed then 1 else 0)") auto

declare private_get_head_node.simps [simp del]

text \<open>
  \<open>_get_worker_nodes\<close> assigns \<open>config["cluster_name"]\<close> on the caller's config; the
  second component of the result is that config after the call.
\<close>

definition private_get_worker_nodes ::
  "'p env \<Rightarrow> cluster_config \<Rightarrow> string option \<Rightarrow> 'p world
     \<Rightarrow> node_id list \<times> cluster_config \<times> 'p world" where
  "private_get_worker_nodes env config override_cluster_name w =
     (let config1 = (case override_cluster_name of
                       None \<Rightarrow> config
                     | Some n \<Rightarrow> config\<lparr>cluster_name := n\<rparr>)
      in case call_non_terminated_nodes env [(TAG_RAY_NODE_TYPE, NODE_TYPE_WORKER)]
                (get_node_provider (provider config1) (cluster_name config1) w) of
           (nodes, w1) \<Rightarrow> (nodes, config1, call_cleanup env w1))"

text \<open>
  The updater that \<open>exec_cluster\<close>, \<open>rsync\<close> and \<open>kill_node\<close> build: no commands, an
  empty runtime hash.
\<close>

definition plain_updater_args :: "cluster_config \<Rightarrow> node_id \<Rightarrow> updater_args" where
  "plain_updater_args config n =
     \<lparr>ua_node_id = n,
      ua_provider_config = provider config,
      ua_auth_config = auth config,
      ua_cluster_name = cluster_name config,
      ua_file_mounts = file_mounts config,
      ua_initialization_commands = [],
      ua_setup_commands = [],
      ua_ray_start_commands = [],
      ua_runtime_hash = [],
      ua_docker_config = docker config\<rparr>"

definition call_runner_run ::
  "'p env \<Rightarrow> updater_args \<Rightarrow> string option \<Rightarrow> int list option \<Rightarrow> bool \<Rightarrow> string \<Rightarrow> 'p world
     \<Rightarrow> (error + string) \<times> 'p world" where
  "call_runner_run env a cmd port_forward with_output run_env w =
     (case runner_run env a cmd port_forward with_output run_env (pstate w) of
        (r, p) \<Rightarrow> (r, log (EvRun a cmd port_forward with_output run_env) (w\<lparr>pstate := p\<rparr>)))"

definition call_shutdown_after_next_cmd :: "'p env \<Rightarrow> updater_args \<Rightarrow> 'p world \<Rightarrow> 'p world" where
  "call_shutdown_after_next_cmd env a w =
     log (EvShutdownAfterNextCmd a)
       (w\<lparr>pstate := runner_shutdown_after_next_cmd env a (pstate w)\<rparr>)"

definition private_exec ::
  "'p env \<Rightarrow> updater_args \<Rightarrow> string option \<Rightarrow> bool \<Rightarrow> bool \<Rightarrow> int list option \<Rightarrow> bool \<Rightarrow> string
     \<Rightarrow> 'p world \<Rightarrow> (error + string) \<times> 'p world" where
  "private_exec env updater cmd screen tmux port_forward with_output run_env w =
     (let cmd1 =
        (case cmd of
           None \<Rightarrow> cmd
         | Some c \<Rightarrow>
             if c = [] then cmd
             else if screen then
               Some (join '' '' [''screen'', ''-L'', ''-dm'', ''bash'', ''-c'',
                                 quote env (c @ ''; exec bash'')])
             else if tmux then
               Some (join '' '' [''tmux'', ''new'', ''-d'', ''bash'', ''-c'',
                                 quote env (c @ ''; exec bash'')])
             else cmd)
      in call_runner_run env updater cmd1 port_forward with_output run_env w)"

text \<open>
  Lines 508 to 516: the command after the stop sequence is added, and whether
  \<open>shutdown_after_next_cmd\<close> is called on the runner.
\<close>

definition stop_command :: "string option \<Rightarrow> bool \<Rightarrow> bool \<Rightarrow> string \<Rightarrow> string option \<times> bool" where
  "stop_command cmd stop is_docker run_env =
     (if py_bool cmd \<and> stop then
        (case cmd of
           None \<Rightarrow> (cmd, False)
         | Some c \<Rightarrow>
             let c1 = c @ join ''; ''
                        [''ray stop'',
                         ''ray teardown ~/ray_bootstrap_config.yaml --yes --workers-only'']
             in if is_docker \<and> run_env = ''docker'' then (Some c1, True)
                else (Some (c1 @ ''; sudo shutdown -h now''), False))
      else (cmd, False))"

definition RUN_ENV_TYPES :: "string list" where
  "RUN_ENV_TYPES = [''auto'', ''host'', ''docker'']"

text \<open>
  Lines 488 to 542: \<open>exec_cluster\<close> from the point where the config is resolved. The
  second component of the result is that config as the call leaves it.
\<close>

definition exec_resolved ::
  "'p env \<Rightarrow> cluster_config \<Rightarrow> string \<Rightarrow> string option \<Rightarrow> string \<Rightarrow> bool \<Rightarrow> bool \<Rightarrow> bool \<Rightarrow> bool
     \<Rightarrow> string option \<Rightarrow> int list option \<Rightarrow> bool \<Rightarrow> 'p world
     \<Rightarrow> (error + string) \<times> cluster_config \<times> 'p world" where
  "exec_resolved env config config_file cmd run_env screen tmux stop start
       override_cluster_name port_forward with_output w =
     (case private_get_head_node env config config_file override_cluster_name start w of
        (Inl e, config1, w1) \<Rightarrow> (Inl e, config1, w1)
      | (Inr head, config1, w1) \<Rightarrow>
          let w2 = get_node_provider (provider config1) (cluster_name config1) w1;
              updater = plain_updater_args config1 head;
              is_docker = runner_is_docker env updater
          in (case stop_command cmd stop is_docker run_env of
                (cmd1, shutdown_after) \<Rightarrow>
                  (case private_exec env updater cmd1 screen tmux port_forward with_output run_env
                          (if shutdown_after then call_shutdown_after_next_cmd env updater w2
                           else w2) of
                     (r, w3) \<Rightarrow> (r, config1, call_cleanup env w3))))"

definition exec_cluster ::
  "'p env \<Rightarrow> string \<Rightarrow> string option \<Rightarrow> string \<Rightarrow> bool \<Rightarrow> bool \<Rightarrow> bool \<Rightarrow> bool
     \<Rightarrow> string option \<Rightarrow> int list option \<Rightarrow> bool \<Rightarrow> 'p world \<Rightarrow> (error + string) \<times> 'p world" where
  "exec_cluster env config_file cmd run_env screen tmux stop start
       override_cluster_name port_forward with_output w =
     (if screen \<and> tmux
      then (Inl (AssertionError ''Can specify only one of `screen` or `tmux`.''), w)
      else if run_env \<notin> set RUN_ENV_TYPES
      then (Inl (AssertionError ''--run_env must be in ['auto', 'host', 'docker']''), w)
      else
        let config0 = yaml_load_file env config_file;
            config1 = (case override_cluster_name of
                         None \<Rightarrow> config0
                       | Some n \<Rightarrow> config0\<lparr>cluster_name := n\<rparr>)
        in (case private_bootstrap_config env config1 False w of
              (Inl e, w1) \<Rightarrow> (Inl e, w1)
            | (Inr config2, w1) \<Rightarrow>
                (case exec_resolved env config2 config_file cmd run_env screen tmux stop start
                        override_cluster_name port_forward with_output w1 of
                   (r, config3, w2) \<Rightarrow> (r, w2))))"

text \<open>
  \<open>teardown_cluster\<close> as a whole. \<open>except Exception\<close> around the clean shutdown catches
  every error of this model but \<open>SystemExit\<close>.
\<close>

definition teardown_cluster ::
  "'p env \<Rightarrow> string \<Rightarrow> bool \<Rightarrow> bool \<Rightarrow> string option \<Rightarrow> bool \<Rightarrow> 'p world
     \<Rightarrow> ((error + unit) \<times> 'p world) option" where
  "teardown_cluster env config_file yes workers_only override_cluster_name keep_min_workers w =
     (let config0 = yaml_load_file env config_file;
          config1 = (case override_cluster_name of
                       None \<Rightarrow> config0
                     | Some n \<Rightarrow> config0\<lparr>cluster_name := n\<rparr>);
          config2 = prepare_config env config1
      in if \<not> validate_config env config2 then Some (Inl ConfigInvalid, w)
         else (case confirm ''This will destroy your cluster'' yes w of
                 (Inl e, w1) \<Rightarrow> Some (Inl e, w1)
               | (Inr u, w1) \<Rightarrow>
                   (case (if \<not> workers_only then
                            (case exec_cluster env config_file (Some ''ray stop'') ''auto''
                                    False False False False override_cluster_name None False w1 of
                               (Inl (SystemExit code), w2) \<Rightarrow> (Inl (SystemExit code), w2)
                             | (r, w2) \<Rightarrow> (Inr (), w2))
                          else (Inr (), w1)) of
                      (Inl e, w2) \<Rightarrow> Some (Inl e, w2)
                    | (Inr u, w2) \<Rightarrow>
                        (case teardown_nodes env config2 workers_only keep_min_workers w2 of
                           None \<Rightarrow> None
                         | Some (r, config3, w3) \<Rightarrow> Some (r, w3)))))"

section \<open>\<open>rsync\<close>\<close>

definition call_rsync ::
  "'p env \<Rightarrow> bool \<Rightarrow> updater_args \<Rightarrow> string \<Rightarrow> string \<Rightarrow> 'p world \<Rightarrow> 'p world" where
  "call_rsync env down a source target w =
     (if down
      then log (EvRsyncDown a source target)
             (w\<lparr>pstate := updater_rsync_down env a source target (pstate w)\<rparr>)
      else log (EvRsyncUp a source target)
             (w\<lparr>pstate := updater_rsync_up env a source target (pstate w)\<rparr>))"

definition call_sync_file_mounts :: "'p env \<Rightarrow> updater_args \<Rightarrow> bool \<Rightarrow> 'p world \<Rightarrow> 'p world" where
  "call_sync_file_mounts env a down w =
     log (EvSyncFileMounts a down)
       (w\<lparr>pstate := updater_sync_file_mounts env a down (pstate w)\<rparr>)"

text \<open>Lines 616 to 636, the body of the loop over the nodes.\<close>

definition rsync_node ::
  "'p env \<Rightarrow> cluster_config \<Rightarrow> string option \<Rightarrow> string option \<Rightarrow> bool \<Rightarrow> node_id \<Rightarrow> 'p world
     \<Rightarrow> 'p world" where
  "rsync_node env config source target down n w =
     (let updater = plain_updater_args config n in
      case (source, target) of
        (Some s, Some t) \<Rightarrow>
          if s \<noteq> [] \<and> t \<noteq> [] then call_rsync env down updater s t w
          else call_sync_file_mounts env updater down w
      | other \<Rightarrow> call_sync_file_mounts env updater down w)"

text \<open>
  Lines 598 to 639: \<open>rsync\<close> from the point where the config is resolved. The second
  component of the result is that config as the call leaves it.
\<close>

definition rsync_resolved ::
  "'p env \<Rightarrow> cluster_config \<Rightarrow> string \<Rightarrow> string option \<Rightarrow> string option \<Rightarrow> string option
     \<Rightarrow> bool \<Rightarrow> bool \<Rightarrow> 'p world \<Rightarrow> (error + unit) \<times> cluster_config \<times> 'p world" where
  "rsync_resolved env config config_file source target override_cluster_name down all_nodes w =
     (let w0 = get_node_provider (provider config) (cluster_name config) w in
      case (if all_nodes then private_get_worker_nodes env config override_cluster_name w0
            else ([], config, w0)) of
        (nodes0, config1, w1) \<Rightarrow>
          (case private_get_head_node env config1 config_file override_cluster_name False w1 of
             (Inl e, config2, w2) \<Rightarrow> (Inl e, config2, call_cleanup env w2)
           | (Inr head, config2, w2) \<Rightarrow>
               (Inr (), config2,
                call_cleanup env
                  (fold (rsync_node env config2 source target down) (nodes0 @ [head]) w2))))"

definition rsync ::
  "'p env \<Rightarrow> string \<Rightarrow> string option \<Rightarrow> string option \<Rightarrow> string option \<Rightarrow> bool \<Rightarrow> bool
     \<Rightarrow> 'p world \<Rightarrow> (error + unit) \<times> 'p world" where
  "rsync env config_file source target override_cluster_name down all_nodes w =
     (if py_bool source \<noteq> py_bool target
      then (Inl (AssertionError ''Must either provide both or neither source and target.''), w)
      else
        let config0 = yaml_load_file env config_file;
            config1 = (case override_cluster_name of
                         None \<Rightarrow> config0
                       | Some n \<Rightarrow> config0\<lparr>cluster_name := n\<rparr>)
        in (case private_bootstrap_config env config1 False w of
              (Inl e, w1) \<Rightarrow> (Inl e, w1)
            | (Inr config2, w1) \<Rightarrow>
                (case rsync_resolved env config2 config_file source target
                        override_cluster_name down all_nodes w1 of
                   (r, config3, w2) \<Rightarrow> (r, w2))))"

section \<open>Reading a trace\<close>

text \<open>The provider calls of this program that create or remove nodes.\<close>

fun is_node_change :: "event \<Rightarrow> bool" where
  "is_node_change (EvCreateNode node_config t n) = True"
| "is_node_change (EvTerminateNode n) = True"
| "is_node_change (EvTerminateNodes ns) = True"
| "is_node_change e = False"

fun is_update :: "event \<Rightarrow> bool" where
  "is_update (EvUpdate a) = True"
| "is_update e = False"

text \<open>The events a call added to the trace.\<close>

definition events_since :: "'p world \<Rightarrow> 'p world \<Rightarrow> event list" where
  "events_since w w' = drop (length (trace w)) (trace w')"

text \<open>
  \<open>poll_trace t evs res\<close>: \<open>evs\<close> is a run of the readiness poll under the filter \<open>t\<close>.
  Every poll that did not return exactly one node is followed by a sleep of one second;
  the run ends with a poll that returned exactly the node \<open>h\<close> (\<open>res = Some h\<close>) or, on a
  timeout, after a sleep (\<open>res = None\<close>).
\<close>

fun poll_trace :: "tags \<Rightarrow> event list \<Rightarrow> node_id option \<Rightarrow> bool" where
  "poll_trace t [] res = (res = None)"
| "poll_trace t [EvNonTerminatedNodes f ns] res =
     (f = t \<and> (case ns of [h] \<Rightarrow> res = Some h | other \<Rightarrow> False))"
| "poll_trace t (EvNonTerminatedNodes f ns # EvSleep n # rest) res =
     (f = t \<and> length ns \<noteq> 1 \<and> n = 1 \<and> poll_trace t rest res)"
| "poll_trace t evs res = False"

text \<open>
  Modelled from the spec: the updater (\<open>ray.autoscaler.updater\<close>) is not part of the
  sources. The spec has it run the initialization commands, the setup commands and the
  start commands it was built with, in that order.
\<close>

definition updater_command_sequence :: "updater_args \<Rightarrow> string list" where
  "updater_command_sequence a =
     ua_initialization_commands a @ ua_setup_commands a @ ua_ray_start_commands a"

section \<open>An in-memory provider\<close>

text \<open>
  A provider to run the program against. A node is an id, its tags and, once its
  termination was requested, the number of listings it still shows up in: with
  \<open>lag = 0\<close> a terminated node is gone from the next listing on, with a larger \<open>lag\<close>
  it lingers (a pod in its grace period, an instance shutting down).
\<close>

type_synonym mem_node = "node_id \<times> tags \<times> nat option"

definition mem_matches :: "tags \<Rightarrow> tags \<Rightarrow> bool" where
  "mem_matches flt t = list_all (\<lambda>(k, v). map_of t k = Some v) flt"

definition mem_age :: "mem_node list \<Rightarrow> mem_node list" where
  "mem_age p = map (\<lambda>(n, t, d). (n, t, map_option (\<lambda>k. k - 1) d))
                 (filter (\<lambda>(n, t, d). d \<noteq> Some 0) p)"

definition mem_list :: "tags \<Rightarrow> mem_node list \<Rightarrow> node_id list \<times> mem_node list" where
  "mem_list flt p =
     (let p1 = mem_age p in (map fst (filter (\<lambda>(n, t, d). mem_matches flt t) p1), p1))"

definition mem_terminate :: "nat \<Rightarrow> node_id \<Rightarrow> mem_node list \<Rightarrow> mem_node list" where
  "mem_terminate lag n p =
     map (\<lambda>(m, t, d). if m = n \<and> d = None then (m, t, Some lag) else (m, t, d)) p"

fun mem_create :: "tags \<Rightarrow> nat \<Rightarrow> mem_node list \<Rightarrow> mem_node list" where
  "mem_create t 0 p = p"
| "mem_create t (Suc cnt) p =
     mem_create t cnt (p @ [(''node-'' @ replicate (Suc (length p)) (CHR ''i''), t, None)])"

definition mem_config :: cluster_config where
  "mem_config =
     \<lparr>cluster_name = ''mem'',
      provider = \<lparr>ptype = ''mem'', use_internal_ips = False\<rparr>,
      auth = [(''ssh_user'', ''ubuntu''), (''ssh_private_key'', ''~/.ssh/key.pem'')],
      head_node = [(''InstanceType'', ''m5.large'')],
      file_mounts = [(''/remote/app'', ''/local/app'')],
      initialization_commands = [''echo init''],
      head_setup_commands = [''pip install ray''],
      head_start_ray_commands = [''ray start --head''],
      min_workers = Some 1,
      docker = None,
      no_restart_key = None\<rparr>"

definition mem_env :: "nat \<Rightarrow> mem_node list env" where
  "mem_env lag =
     \<lparr>non_terminated_nodes = mem_list,
      node_tags = (\<lambda>n p. case map_of p n of None \<Rightarrow> [] | Some (t, d) \<Rightarrow> t),
      create_node = (\<lambda>node_config t cnt p. mem_create t cnt p),
      terminate_node = mem_terminate lag,
      terminate_nodes = (\<lambda>ns p. fold (mem_terminate lag) ns p),
      internal_ip = (\<lambda>n p. ''10.0.0.1''),
      external_ip = (\<lambda>n p. ''192.0.2.1''),
      provider_cleanup = (\<lambda>p. p),
      provider_bootstrap_config = (\<lambda>c p. (c, p)),
      node_providers = (\<lambda>t. t = ''mem''),
      hash_launch_conf = (\<lambda>node_config a. concat (map snd node_config)),
      hash_runtime_conf = (\<lambda>m c. ''runtime''),
      prepare_config = (\<lambda>c. c),
      validate_config = (\<lambda>c. True),
      updater_run = (\<lambda>a p. (0, p)),
      runner_is_docker = (\<lambda>a. ua_docker_config a \<noteq> None),
      runner_shutdown_after_next_cmd = (\<lambda>a p. p),
      runner_run = (\<lambda>a cmd port_forward with_output run_env p. (Inr [], p)),
      updater_rsync_up = (\<lambda>a s t p. p),
      updater_rsync_down = (\<lambda>a s t p. p),
      updater_sync_file_mounts = (\<lambda>a down p. p),
      yaml_load_file = (\<lambda>f. mem_config),
      json_dumps = (\<lambda>c. ''config:'' @ cluster_name c),
      json_loads = (\<lambda>s. if s = ''config:mem'' then Some mem_config else None),
      sha1_of_config = (\<lambda>c. cluster_name c),
      gettempdir = ''/tmp'',
      named_temporary_file = (\<lambda>prefix. ''/tmp/'' @ prefix @ ''0''),
      quote = (\<lambda>s. ''<'' @ s @ ''>'')\<rparr>"

definition mem_world :: "mem_node list \<Rightarrow> mem_node list world" where
  "mem_world p = \<lparr>pstate = p, clock = 0, files = [], answers = [], rng = [], trace = []\<rparr>"

text \<open>A head node launched from an older launch config, and one launched from \<open>mem_config\<close>.\<close>

definition stale_head :: mem_node where
  "stale_head = (''old-head'',
                 [(TAG_RAY_NODE_TYPE, NODE_TYPE_HEAD), (TAG_RAY_LAUNCH_CONFIG, ''m4.large''),
                  (TAG_RAY_NODE_NAME, ''ray-mem-head'')], None)"

definition fresh_head :: mem_node where
  "fresh_head = (''head-1'',
                 [(TAG_RAY_NODE_TYPE, NODE_TYPE_HEAD), (TAG_RAY_LAUNCH_CONFIG, ''m5.large''),
                  (TAG_RAY_NODE_NAME, ''ray-mem-head'')], None)"

definition mem_worker :: "node_id \<Rightarrow> mem_node" where
  "mem_worker n = (n, [(TAG_RAY_NODE_TYPE, NODE_TYPE_WORKER)], None)"

text \<open>A provider that accepts every terminate request and never carries it out.\<close>

definition unresponsive_env :: "mem_node list env" where
  "unresponsive_env = (mem_env 0)\<lparr>terminate_node := (\<lambda>n p. p), terminate_nodes := (\<lambda>ns p. p)\<rparr>"

text \<open>
  The world a first call of \<open>get_or_create_head_node\<close> leaves behind when it replaces
  an out-of-date head on a provider with lingering nodes.
\<close>

definition after_first_call :: "mem_node list world" where
  "after_first_call =
     snd (snd (get_or_create_head_node (mem_env 5) mem_config ''cluster.yaml''
                 False False True None (mem_world [stale_head])))"

section \<open>Facts about the calls and about \<open>get_or_create_head_node\<close>\<close>

lemma world_log_simps:
  "trace (log e w) = trace w @ [e]"
  "pstate (log e w) = pstate w"
  "clock (log e w) = clock w"
  "files (log e w) = files w"
  "answers (log e w) = answers w"
  "rng (log e w) = rng w"
  by (simp_all add: log_def)

lemma confirm_frame:
  "confirm msg yes w = (r, w') \<Longrightarrow>
   trace w' = trace w \<and> pstate w' = pstate w \<and> clock w' = clock w \<and> (r = Inr () \<or> r = Inl Abort)"
  by (auto simp: confirm_def split: if_splits list.splits)

lemma wait_for_head_trace:
  "wait_for_head env t s w = (r, w') \<Longrightarrow> s \<le> clock w \<Longrightarrow>
   \<exists>polls. trace w' = trace w @ polls
     \<and> poll_trace t polls (case r of Inr h \<Rightarrow> Some h | Inl e \<Rightarrow> None)
     \<and> length polls \<le> 2 * (51 - (clock w - s))
     \<and> (\<forall>e. r = Inl e \<longrightarrow> e = RuntimeError ''Failed to create head node.'' \<and> 50 < clock w' - s)"
proof (induction env t s w arbitrary: r w' rule: wait_for_head.induct)
  case (1 env t s w)
  show ?case
  proof (cases "50 < clock w - s")
    case True
    with "1.prems" show ?thesis by (auto simp: wait_for_head.simps)
  next
    case False
    note sle = "1.prems"(2)
    obtain nodes p where q: "non_terminated_nodes env t (pstate w) = (nodes, p)"
      by (cases "non_terminated_nodes env t (pstate w)")
    let ?w1 = "log (EvNonTerminatedNodes t nodes) (w\<lparr>pstate := p\<rparr>)"
    have c: "call_non_terminated_nodes env t w = (nodes, ?w1)"
      by (simp add: call_non_terminated_nodes_def q)
    show ?thesis
    proof (cases "length nodes = 1")
      case True
      then obtain h where h: "nodes = [h]" by (cases nodes) auto
      with "1.prems" False c show ?thesis
        by (auto simp: world_log_simps wait_for_head.simps)
    next
      case ne: False
      from "1.prems" False c ne
      have rec: "wait_for_head env t s (sleep 1 ?w1) = (r, w')"
        by (simp add: wait_for_head.simps[of env t s w])
      have sle1: "s \<le> clock (sleep 1 ?w1)"
        using sle by (simp add: sleep_def world_log_simps)
      from "1.IH"[OF False c[symmetric] ne rec sle1]
      obtain polls where p: "trace w' = trace (sleep 1 ?w1) @ polls"
        "poll_trace t polls (case r of Inr h \<Rightarrow> Some h | Inl e \<Rightarrow> None)"
        "length polls \<le> 2 * (51 - (clock (sleep 1 ?w1) - s))"
        "\<forall>e. r = Inl e \<longrightarrow> e = RuntimeError ''Failed to create head node.'' \<and> 50 < clock w' - s"
        by blast
      have "trace w' = trace w @ (EvNonTerminatedNodes t nodes # EvSleep 1 # polls)"
        using p(1) by (simp add: sleep_def world_log_simps)
      moreover have "poll_trace t (EvNonTerminatedNodes t nodes # EvSleep 1 # polls)
                       (case r of Inr h \<Rightarrow> Some h | Inl e \<Rightarrow> None)"
        using ne p(2) by simp
      moreover have "length (EvNonTerminatedNodes t nodes # EvSleep 1 # polls)
                       \<le> 2 * (51 - (clock w - s))"
        using p(3) False sle by (simp add: sleep_def world_log_simps)
      ultimately show ?thesis using p(4) by blast
    qed
  qed
qed

lemma poll_trace_no_change: "poll_trace t polls res \<Longrightarrow> filter is_node_change polls = []"
  by (induction t polls res rule: poll_trace.induct) auto

lemma poll_trace_no_update: "poll_trace t polls res \<Longrightarrow> filter is_update polls = []"
  by (induction t polls res rule: poll_trace.induct) auto

lemma inject_bootstrap_files_frame:
  "inject_bootstrap_files env c rc w = (r, c', w') \<Longrightarrow>
   trace w' = trace w \<and> pstate w' = pstate w \<and> clock w' = clock w
     \<and> (r = Inr () \<or> r = Inl (KeyError ''ssh_private_key''))"
  by (auto simp: inject_bootstrap_files_def write_file_def Let_def split: if_splits option.splits)

lemma inject_bootstrap_files_config:
  "inject_bootstrap_files env c rc w = (r, c', w') \<Longrightarrow>
   c'\<lparr>file_mounts := file_mounts c\<rparr> = c
   \<and> (file_mounts c' = AList.update ''~/ray_bootstrap_config.yaml''
                          (named_temporary_file env ''ray-bootstrap-'') (file_mounts c)
      \<or> (ptype (provider c) \<noteq> ''kubernetes''
          \<and> (\<exists>key. map_of (auth c) ''ssh_private_key'' = Some key
               \<and> file_mounts c' = AList.update ''~/ray_bootstrap_key.pem'' key
                   (AList.update ''~/ray_bootstrap_config.yaml''
                      (named_temporary_file env ''ray-bootstrap-'') (file_mounts c)))))"
  by (auto simp: inject_bootstrap_files_def write_file_def Let_def split: if_splits option.splits)

lemma update_head_node_trace:
  "update_head_node env c h t ic sc rh w = (r, w') \<Longrightarrow>
   \<exists>ns ip. trace w' = trace w @ [EvUpdate (head_updater_args c h ic sc rh), EvNonTerminatedNodes t ns, ip]
     \<and> (ip = EvInternalIp h \<or> ip = EvExternalIp h) \<and> (r = Inr () \<or> r = Inl (SystemExit 1))"
  by (auto simp: update_head_node_def call_updater_def call_non_terminated_nodes_def
        call_node_ip_def world_log_simps split: prod.splits if_splits)

text \<open>The three ways the create-or-replace decision can go, by what the first query reported.\<close>

lemma create_or_replace_head_cases:
  assumes q: "non_terminated_nodes env [(TAG_RAY_NODE_TYPE, NODE_TYPE_HEAD)] (pstate w) = (nodes, p)"
    and run: "create_or_replace_head env config nr yes w = (r, w1)"
  shows "\<exists>evs. trace w1 = trace w @ evs \<and> filter is_update evs = [] \<and> clock w1 = clock w
     \<and> ((r = Inl Abort \<and> filter is_node_change evs = [])
        \<or> (r = Inr [(TAG_RAY_NODE_TYPE, NODE_TYPE_HEAD)]
            \<and> filter is_node_change evs = []
            \<and> (\<exists>h others. nodes = h # others
                  \<and> map_of (node_tags env h p) TAG_RAY_LAUNCH_CONFIG
                       = Some (hash_launch_conf env (head_node config) (auth config))))
        \<or> (r = Inr [(TAG_RAY_NODE_TYPE, NODE_TYPE_HEAD),
                     (TAG_RAY_LAUNCH_CONFIG, hash_launch_conf env (head_node config) (auth config)),
                     (TAG_RAY_NODE_NAME, ''ray-'' @ cluster_name config @ ''-head'')]
            \<and> (case nodes of
                  [] \<Rightarrow> filter is_node_change evs =
                          [EvCreateNode (head_node config)
                             [(TAG_RAY_NODE_TYPE, NODE_TYPE_HEAD),
                              (TAG_RAY_LAUNCH_CONFIG, hash_launch_conf env (head_node config) (auth config)),
                              (TAG_RAY_NODE_NAME, ''ray-'' @ cluster_name config @ ''-head'')] 1]
                | h # others \<Rightarrow>
                    map_of (node_tags env h p) TAG_RAY_LAUNCH_CONFIG
                       \<noteq> Some (hash_launch_conf env (head_node config) (auth config))
                    \<and> filter is_node_change evs =
                          [EvTerminateNode h,
                           EvCreateNode (head_node config)
                             [(TAG_RAY_NODE_TYPE, NODE_TYPE_HEAD),
                              (TAG_RAY_LAUNCH_CONFIG, hash_launch_conf env (head_node config) (auth config)),
                              (TAG_RAY_NODE_NAME, ''ray-'' @ cluster_name config @ ''-head'')] 1])))"
  using assms
  by (cases nodes)
     (auto simp: create_or_replace_head_def call_non_terminated_nodes_def call_node_tags_def
        launch_head_node_def call_create_node_def call_terminate_node_def
        world_log_simps Let_def py_not_def
      split: if_splits prod.splits sum.splits dest!: confirm_frame)

lemma get_or_create_head_node_run:
  assumes run: "get_or_create_head_node env config cf nr ro yes ocn w = (r, config', w')"
  obtains
    (declined) e w1 where
      "create_or_replace_head env config nr yes
         (get_node_provider (provider config) (cluster_name config) w) = (Inl e, w1)"
      "r = Inl e" "trace w' = trace w1 @ [EvCleanup]"
  | (timeout) t w1 polls where
      "create_or_replace_head env config nr yes
         (get_node_provider (provider config) (cluster_name config) w) = (Inr t, w1)"
      "r = Inl (RuntimeError ''Failed to create head node.'')"
      "trace w' = trace w1 @ polls @ [EvCleanup]"
      "poll_trace t polls None" "length polls \<le> 102" "50 < clock w' - clock w1"
  | (no_key) t w1 polls h where
      "create_or_replace_head env config nr yes
         (get_node_provider (provider config) (cluster_name config) w) = (Inr t, w1)"
      "r = Inl (KeyError ''ssh_private_key'')"
      "trace w' = trace w1 @ polls @ [EvCleanup]"
      "poll_trace t polls (Some h)" "length polls \<le> 102"
  | (updated) t w1 polls h ns ip where
      "create_or_replace_head env config nr yes
         (get_node_provider (provider config) (cluster_name config) w) = (Inr t, w1)"
      "r = Inr () \<or> r = Inl (SystemExit 1)"
      "trace w' = trace w1 @ polls @
         [EvUpdate (head_updater_args config' h
                      (fst (select_commands config' nr ro))
                      (snd (select_commands config' nr ro))
                      (hash_runtime_conf env (file_mounts config) config)),
          EvNonTerminatedNodes t ns, ip, EvCleanup]"
      "poll_trace t polls (Some h)" "length polls \<le> 102"
      "ip = EvInternalIp h \<or> ip = EvExternalIp h"
proof -
  let ?w0 = "get_node_provider (provider config) (cluster_name config) w"
  obtain r1 w1 where a: "create_or_replace_head env config nr yes ?w0 = (r1, w1)"
    by (cases "create_or_replace_head env config nr yes ?w0")
  show ?thesis
  proof (cases r1)
    case (Inl e)
    with run a have x: "r = Inl e" "trace w' = trace w1 @ [EvCleanup]"
      by (auto simp: get_or_create_head_node_def head_node_body_def call_cleanup_def world_log_simps)
    from a Inl have dec: "create_or_replace_head env config nr yes ?w0 = (Inl e, w1)" by simp
    show ?thesis by (rule declined[OF dec x])
  next
    case (Inr t)
    obtain r2 w2 where b: "wait_for_head env t (clock w1) w1 = (r2, w2)"
      by (cases "wait_for_head env t (clock w1) w1")
    from wait_for_head_trace[OF b] obtain polls where
      p: "trace w2 = trace w1 @ polls"
         "poll_trace t polls (case r2 of Inr h \<Rightarrow> Some h | Inl e \<Rightarrow> None)"
         "length polls \<le> 102"
         "\<forall>e. r2 = Inl e \<longrightarrow> e = RuntimeError ''Failed to create head node.'' \<and> 50 < clock w2 - clock w1"
      by auto
    show ?thesis
    proof (cases r2)
      case e2: (Inl e)
      with p(4) have e: "e = RuntimeError ''Failed to create head node.''" "50 < clock w2 - clock w1"
        by simp_all
      from run a Inr b e2 e have x: "r = Inl (RuntimeError ''Failed to create head node.'')"
        "w' = call_cleanup env w2"
        by (auto simp: get_or_create_head_node_def head_node_body_def)
      from a Inr have dec: "create_or_replace_head env config nr yes ?w0 = (Inr t, w1)" by simp
      have tr: "trace w' = trace w1 @ polls @ [EvCleanup]"
        using x(2) p(1) by (simp add: call_cleanup_def world_log_simps)
      from p(2) e2 have pt: "poll_trace t polls None" by simp
      have ck: "50 < clock w' - clock w1"
        using x(2) e(2) by (simp add: call_cleanup_def world_log_simps)
      show ?thesis by (rule timeout[OF dec x(1) tr pt p(3) ck])
    next
      case h2: (Inr h)
      obtain r3 c3 w3 where c: "inject_bootstrap_files env config (make_remote_config config nr) w2 = (r3, c3, w3)"
        by (cases "inject_bootstrap_files env config (make_remote_config config nr) w2") auto
      note i = inject_bootstrap_files_frame[OF c]
      show ?thesis
      proof (cases r3)
        case e3: (Inl e)
        with i have "e = KeyError ''ssh_private_key''" by auto
        with run a Inr b h2 c e3 have x: "r = Inl (KeyError ''ssh_private_key'')"
          "w' = call_cleanup env w3"
          by (auto simp: get_or_create_head_node_def head_node_body_def Let_def)
        from a Inr have dec: "create_or_replace_head env config nr yes ?w0 = (Inr t, w1)" by simp
        have tr: "trace w' = trace w1 @ polls @ [EvCleanup]"
          using x(2) p(1) i by (simp add: call_cleanup_def world_log_simps)
        from p(2) h2 have pt: "poll_trace t polls (Some h)" by simp
        show ?thesis by (rule no_key[OF dec x(1) tr pt p(3)])
      next
        case u3: (Inr u)
        obtain r4 w4 where d: "update_head_node env c3 h t (fst (select_commands c3 nr ro))
               (snd (select_commands c3 nr ro)) (hash_runtime_conf env (file_mounts config) config) w3 = (r4, w4)"
          by (cases "update_head_node env c3 h t (fst (select_commands c3 nr ro))
               (snd (select_commands c3 nr ro)) (hash_runtime_conf env (file_mounts config) config) w3")
        from update_head_node_trace[OF d] obtain ns ip where
          u: "trace w4 = trace w3 @ [EvUpdate (head_updater_args c3 h (fst (select_commands c3 nr ro))
               (snd (select_commands c3 nr ro)) (hash_runtime_conf env (file_mounts config) config)),
               EvNonTerminatedNodes t ns, ip]"
             "ip = EvInternalIp h \<or> ip = EvExternalIp h" "r4 = Inr () \<or> r4 = Inl (SystemExit 1)"
          by blast
        from run a Inr b h2 c u3 d have res: "r = r4" "config' = c3" "w' = call_cleanup env w4"
          by (auto simp: get_or_create_head_node_def head_node_body_def Let_def split: prod.splits)
        have tr: "trace w' = trace w1 @ polls @
           [EvUpdate (head_updater_args config' h
                      (fst (select_commands config' nr ro))
                      (snd (select_commands config' nr ro))
                      (hash_runtime_conf env (file_mounts config) config)),
            EvNonTerminatedNodes t ns, ip, EvCleanup]"
          using res u(1) i p(1) by (simp add: call_cleanup_def world_log_simps)
        from p(2) h2 have pt: "poll_trace t polls (Some h)" by simp
        from a Inr have dec: "create_or_replace_head env config nr yes ?w0 = (Inr t, w1)" by simp
        from res(1) u(3) have rr: "r = Inr () \<or> r = Inl (SystemExit 1)" by simp
        show ?thesis
          by (rule updated[OF dec rr tr pt p(3) u(2)])
      qed
    qed
  qed
qed

lemma get_or_create_head_node_config:
  assumes "get_or_create_head_node env config cf nr ro yes ocn w = (r, config', w')"
  shows "config'\<lparr>file_mounts := file_mounts config\<rparr> = config
   \<and> (file_mounts config' = file_mounts config
      \<or> file_mounts config' = AList.update ''~/ray_bootstrap_config.yaml''
                          (named_temporary_file env ''ray-bootstrap-'') (file_mounts config)
      \<or> (ptype (provider config) \<noteq> ''kubernetes''
          \<and> (\<exists>key. map_of (auth config) ''ssh_private_key'' = Some key
               \<and> file_mounts config' = AList.update ''~/ray_bootstrap_key.pem'' key
                   (AList.update ''~/ray_bootstrap_config.yaml''
                      (named_temporary_file env ''ray-bootstrap-'') (file_mounts config)))))"
proof -
  let ?w0 = "get_node_provider (provider config) (cluster_name config) w"
  obtain r1 w1 where a: "create_or_replace_head env config nr yes ?w0 = (r1, w1)"
    by (cases "create_or_replace_head env config nr yes ?w0")
  show ?thesis
  proof (cases r1)
    case (Inl e)
    with assms a show ?thesis
      by (auto simp: get_or_create_head_node_def head_node_body_def)
  next
    case (Inr t)
    obtain r2 w2 where b: "wait_for_head env t (clock w1) w1 = (r2, w2)"
      by (cases "wait_for_head env t (clock w1) w1")
    show ?thesis
    proof (cases r2)
      case (Inl e)
      with assms a Inr b show ?thesis
        by (auto simp: get_or_create_head_node_def head_node_body_def)
    next
      case h2: (Inr h)
      obtain r3 c3 w3 where c: "inject_bootstrap_files env config (make_remote_config config nr) w2 = (r3, c3, w3)"
        by (cases "inject_bootstrap_files env config (make_remote_config config nr) w2") auto
      from assms a Inr b h2 c have "config' = c3"
        by (auto simp: get_or_create_head_node_def head_node_body_def Let_def
            split: prod.splits sum.splits)
      with inject_bootstrap_files_config[OF c] show ?thesis by blast
    qed
  qed
qed

lemmas mem_simps = mem_env_def mem_world_def mem_config_def mem_list_def mem_age_def
  mem_matches_def mem_terminate_def stale_head_def fresh_head_def mem_worker_def
  NODE_TYPE_HEAD_def NODE_TYPE_WORKER_def

lemmas call_simps = log_def get_node_provider_def call_non_terminated_nodes_def
  call_node_tags_def call_create_node_def call_terminate_node_def call_terminate_nodes_def
  call_cleanup_def call_node_ip_def call_updater_def sleep_def os_path_exists_def
  read_file_def write_file_def confirm_def

lemmas head_simps = get_or_create_head_node_def head_node_body_def create_or_replace_head_def
  launch_head_node_def py_not_def make_remote_config_def inject_bootstrap_files_def
  select_commands_def head_updater_args_def update_head_node_def wait_for_head.simps Let_def

lemma events_since_append: "trace w' = trace w @ evs \<Longrightarrow> events_since w w' = evs"
  by (simp add: events_since_def)

lemma create_or_replace_head_extends:
  assumes dec: "create_or_replace_head env config nr yes
               (get_node_provider (provider config) (cluster_name config) w) = (r1, w1)"
  shows "\<exists>evs. trace w1 = trace w @ EvGetNodeProvider (provider config) (cluster_name config) # evs
           \<and> filter is_update evs = [] \<and> clock w1 = clock w"
proof -
  let ?w0 = "get_node_provider (provider config) (cluster_name config) w"
  obtain nodes p where q: "non_terminated_nodes env [(TAG_RAY_NODE_TYPE, NODE_TYPE_HEAD)] (pstate ?w0) = (nodes, p)"
    by (cases "non_terminated_nodes env [(TAG_RAY_NODE_TYPE, NODE_TYPE_HEAD)] (pstate ?w0)")
  from create_or_replace_head_cases[OF q dec] obtain evs where
    "trace w1 = trace ?w0 @ evs" "filter is_update evs = []" "clock w1 = clock ?w0" by blast
  then show ?thesis by (auto simp: get_node_provider_def world_log_simps)
qed

lemma node_changes_of_run:
  assumes run: "get_or_create_head_node env config cf nr ro yes ocn w = (r, config', w')"
    and dec: "create_or_replace_head env config nr yes
               (get_node_provider (provider config) (cluster_name config) w) = (r1, w1)"
  shows "trace w' = trace w @ events_since w w'
       \<and> filter is_node_change (events_since w w') = filter is_node_change (events_since w w1)
       \<and> (r = Inl Abort \<longleftrightarrow> r1 = Inl Abort)"
proof -
  from create_or_replace_head_extends[OF dec] obtain evsA where
    a: "trace w1 = trace w @ EvGetNodeProvider (provider config) (cluster_name config) # evsA"
    by blast
  from run have "\<exists>later. trace w' = trace w1 @ later \<and> filter is_node_change later = []
          \<and> (r = Inl Abort \<longleftrightarrow> r1 = Inl Abort)"
  proof (cases rule: get_or_create_head_node_run)
    case (declined e w1')
    with dec show ?thesis by auto
  next
    case (timeout t w1' polls)
    with dec poll_trace_no_change[OF timeout(4)] show ?thesis by auto
  next
    case (no_key t w1' polls h)
    with dec poll_trace_no_change[OF no_key(4)] show ?thesis by auto
  next
    case (updated t w1' polls h ns ip)
    with dec poll_trace_no_change[OF updated(4)] show ?thesis by auto
  qed
  then obtain later where l: "trace w' = trace w1 @ later" "filter is_node_change later = []"
    "r = Inl Abort \<longleftrightarrow> r1 = Inl Abort" by blast
  from a l(1) have w': "trace w' = trace w @ (EvGetNodeProvider (provider config) (cluster_name config) # evsA @ later)"
    by simp
  show ?thesis
    using l(2,3) w' by (simp add: events_since_append[OF w'] events_since_append[OF a])
qed

lemma head_decision_changes:
  assumes q: "non_terminated_nodes env [(TAG_RAY_NODE_TYPE, NODE_TYPE_HEAD)] (pstate w) = (h # others, p)"
    and dec: "create_or_replace_head env config nr yes
               (get_node_provider (provider config) (cluster_name config) w) = (r1, w1)"
  shows "filter is_node_change (events_since w w1) =
           (if r1 = Inl Abort
               \<or> map_of (node_tags env h p) TAG_RAY_LAUNCH_CONFIG
                    = Some (hash_launch_conf env (head_node config) (auth config))
            then []
            else [EvTerminateNode h,
                  EvCreateNode (head_node config)
                    [(TAG_RAY_NODE_TYPE, NODE_TYPE_HEAD),
                     (TAG_RAY_LAUNCH_CONFIG, hash_launch_conf env (head_node config) (auth config)),
                     (TAG_RAY_NODE_NAME, ''ray-'' @ cluster_name config @ ''-head'')] 1])"
proof -
  let ?w0 = "get_node_provider (provider config) (cluster_name config) w"
  have q0: "non_terminated_nodes env [(TAG_RAY_NODE_TYPE, NODE_TYPE_HEAD)] (pstate ?w0) = (h # others, p)"
    using q by (simp add: get_node_provider_def world_log_simps)
  from create_or_replace_head_cases[OF q0 dec] obtain evs where
    e: "trace w1 = trace ?w0 @ evs"
    and c: "(r1 = Inl Abort \<and> filter is_node_change evs = [])
        \<or> (r1 = Inr [(TAG_RAY_NODE_TYPE, NODE_TYPE_HEAD)]
            \<and> filter is_node_change evs = []
            \<and> map_of (node_tags env h p) TAG_RAY_LAUNCH_CONFIG
                       = Some (hash_launch_conf env (head_node config) (auth config)))
        \<or> (r1 = Inr [(TAG_RAY_NODE_TYPE, NODE_TYPE_HEAD),
                     (TAG_RAY_LAUNCH_CONFIG, hash_launch_conf env (head_node config) (auth config)),
                     (TAG_RAY_NODE_NAME, ''ray-'' @ cluster_name config @ ''-head'')]
            \<and> map_of (node_tags env h p) TAG_RAY_LAUNCH_CONFIG
                       \<noteq> Some (hash_launch_conf env (head_node config) (auth config))
            \<and> filter is_node_change evs =
                          [EvTerminateNode h,
                           EvCreateNode (head_node config)
                             [(TAG_RAY_NODE_TYPE, NODE_TYPE_HEAD),
                              (TAG_RAY_LAUNCH_CONFIG, hash_launch_conf env (head_node config) (auth config)),
                              (TAG_RAY_NODE_NAME, ''ray-'' @ cluster_name config @ ''-head'')] 1])"
    by auto
  from e have "trace w1 = trace w @ (EvGetNodeProvider (provider config) (cluster_name config) # evs)"
    by (simp add: get_node_provider_def world_log_simps)
  then have "events_since w w1 = EvGetNodeProvider (provider config) (cluster_name config) # evs"
    by (rule events_since_append)
  with c show ?thesis by auto
qed


section \<open>Replacing an out-of-date head node\<close>





section \<open>Reconciling twice\<close>

text \<open>
  Claim C2, as amended. Take a call of \<open>get_or_create_head_node\<close> in which the first
  head node that the provider reports carries the launch hash computed from the current
  config. The call makes no \<open>create_node\<close>, \<open>terminate_node\<close> or \<open>terminate_nodes\<close> call,
  whatever the flags and whatever the operator answers.
\<close>

theorem matching_head_is_kept:
  assumes "non_terminated_nodes env [(TAG_RAY_NODE_TYPE, NODE_TYPE_HEAD)] (pstate w) = (h # others, p)"
    and "map_of (node_tags env h p) TAG_RAY_LAUNCH_CONFIG
           = Some (hash_launch_conf env (head_node config) (auth config))"
    and "get_or_create_head_node env config config_file no_restart restart_only yes
           override_cluster_name w = (r, config', w')"
  shows "trace w' = trace w @ events_since w w'
       \<and> filter is_node_change (events_since w w') = []"
proof -
  obtain r1 w1 where dec: "create_or_replace_head env config no_restart yes
               (get_node_provider (provider config) (cluster_name config) w) = (r1, w1)"
    by (cases "create_or_replace_head env config no_restart yes
               (get_node_provider (provider config) (cluster_name config) w)")
  from node_changes_of_run[OF assms(3) dec] head_decision_changes[OF assms(1) dec] assms(2)
  show ?thesis by auto
qed


text \<open>The theorem at work: an up-to-date head node is left alone.\<close>

theorem matching_head_is_kept_witness:
  "non_terminated_nodes (mem_env 0) [(TAG_RAY_NODE_TYPE, NODE_TYPE_HEAD)]
      (pstate (mem_world [fresh_head])) = ([''head-1''], [fresh_head])
   \<and> map_of (node_tags (mem_env 0) ''head-1'' [fresh_head]) TAG_RAY_LAUNCH_CONFIG
        = Some (hash_launch_conf (mem_env 0) (head_node mem_config) (auth mem_config))
   \<and> filter is_node_change
        (events_since (mem_world [fresh_head])
           (snd (snd (get_or_create_head_node (mem_env 0) mem_config ''cluster.yaml''
                        False False True None (mem_world [fresh_head])))))
      = []"
proof -
  have q: "non_terminated_nodes (mem_env 0) [(TAG_RAY_NODE_TYPE, NODE_TYPE_HEAD)]
      (pstate (mem_world [fresh_head])) = ([''head-1''], [fresh_head])"
    by (simp add: mem_simps)
  have s: "map_of (node_tags (mem_env 0) ''head-1'' [fresh_head]) TAG_RAY_LAUNCH_CONFIG
        = Some (hash_launch_conf (mem_env 0) (head_node mem_config) (auth mem_config))"
    by (simp add: mem_simps)
  let ?run = "get_or_create_head_node (mem_env 0) mem_config ''cluster.yaml'' False False True None
                (mem_world [fresh_head])"
  have run: "?run = (fst ?run, fst (snd ?run), snd (snd ?run))"
    by simp
  from matching_head_is_kept[OF q s run] q s show ?thesis
    by simp
qed

text \<open>
  Claim C2 as stated fails where more than one head node is visible, and the program
  brings that state about itself. Against a provider on which a terminated node lingers
  in the listing, a first call replaces the out-of-date head \<open>old-head\<close> by \<open>node-ii\<close>.
  In the state it leaves, a head node with the current launch hash exists (\<open>node-ii\<close>),
  yet a second call looks at the first node listed only, \<open>old-head\<close>, terminates it again
  and creates another head.
\<close>

lemma after_first_call_eq:
  "after_first_call =
     \<lparr>pstate =
        [(''old-head'',
          [(TAG_RAY_NODE_TYPE, ''head''), (TAG_RAY_LAUNCH_CONFIG, ''m4.large''),
           (TAG_RAY_NODE_NAME, ''ray-mem-head'')], Some 3),
         (''node-ii'',
          [(TAG_RAY_NODE_TYPE, ''head''), (TAG_RAY_LAUNCH_CONFIG, ''m5.large''),
           (TAG_RAY_NODE_NAME, ''ray-mem-head'')], None)],
      clock = 0, files = [(''/tmp/ray-bootstrap-0'', ''config:mem'')],
      answers = [], rng = [],
      trace =
        [EvGetNodeProvider \<lparr>ptype = ''mem'', use_internal_ips = False\<rparr> ''mem'',
         EvNonTerminatedNodes [(TAG_RAY_NODE_TYPE, ''head'')] [''old-head''],
         EvNodeTags ''old-head''
          [(TAG_RAY_NODE_TYPE, ''head''), (TAG_RAY_LAUNCH_CONFIG, ''m4.large''),
           (TAG_RAY_NODE_NAME, ''ray-mem-head'')],
         EvTerminateNode ''old-head'',
         EvCreateNode [(''InstanceType'', ''m5.large'')]
          [(TAG_RAY_NODE_TYPE, ''head''), (TAG_RAY_LAUNCH_CONFIG, ''m5.large''),
           (TAG_RAY_NODE_NAME, ''ray-mem-head'')] 1,
         EvNonTerminatedNodes
          [(TAG_RAY_NODE_TYPE, ''head''), (TAG_RAY_LAUNCH_CONFIG, ''m5.large''),
           (TAG_RAY_NODE_NAME, ''ray-mem-head'')] [''node-ii''],
         EvUpdate
          \<lparr>ua_node_id = ''node-ii'',
           ua_provider_config = \<lparr>ptype = ''mem'', use_internal_ips = False\<rparr>,
           ua_auth_config =
             [(''ssh_user'', ''ubuntu''), (''ssh_private_key'', ''~/.ssh/key.pem'')],
           ua_cluster_name = ''mem'',
           ua_file_mounts =
             [(''/remote/app'', ''/local/app''),
              (''~/ray_bootstrap_config.yaml'', ''/tmp/ray-bootstrap-0''),
              (''~/ray_bootstrap_key.pem'', ''~/.ssh/key.pem'')],
           ua_initialization_commands = [''echo init''],
           ua_setup_commands = [''pip install ray''],
           ua_ray_start_commands = [''ray start --head''],
           ua_runtime_hash = ''runtime'', ua_docker_config = None\<rparr>,
         EvNonTerminatedNodes
          [(TAG_RAY_NODE_TYPE, ''head''), (TAG_RAY_LAUNCH_CONFIG, ''m5.large''),
           (TAG_RAY_NODE_NAME, ''ray-mem-head'')] [''node-ii''],
         EvExternalIp ''node-ii'', EvCleanup]\<rparr>"
  unfolding after_first_call_def
  by (simp add: mem_simps call_simps head_simps)

theorem second_call_counterexample:
  "fst (non_terminated_nodes (mem_env 5) [(TAG_RAY_NODE_TYPE, NODE_TYPE_HEAD)]
          (pstate after_first_call)) = [''old-head'', ''node-ii'']
   \<and> map_of (node_tags (mem_env 5) ''node-ii'' (pstate after_first_call)) TAG_RAY_LAUNCH_CONFIG
        = Some (hash_launch_conf (mem_env 5) (head_node mem_config) (auth mem_config))
   \<and> filter is_node_change
        (events_since after_first_call
           (snd (snd (get_or_create_head_node (mem_env 5) mem_config ''cluster.yaml''
                        False False True None after_first_call))))
      = [EvTerminateNode ''old-head'',
         EvCreateNode [(''InstanceType'', ''m5.large'')]
           [(TAG_RAY_NODE_TYPE, ''head''), (TAG_RAY_LAUNCH_CONFIG, ''m5.large''),
            (TAG_RAY_NODE_NAME, ''ray-mem-head'')] 1]"
proof -
  let ?run = "get_or_create_head_node (mem_env 5) mem_config ''cluster.yaml'' False False True None
                after_first_call"
  let ?dec = "create_or_replace_head (mem_env 5) mem_config False True
                (get_node_provider (provider mem_config) (cluster_name mem_config) after_first_call)"
  have run: "?run = (fst ?run, fst (snd ?run), snd (snd ?run))"
    by simp
  have dec: "?dec = (fst ?dec, snd ?dec)"
    by simp
  have "filter is_node_change (events_since after_first_call (snd ?dec))
      = [EvTerminateNode ''old-head'',
         EvCreateNode [(''InstanceType'', ''m5.large'')]
           [(TAG_RAY_NODE_TYPE, ''head''), (TAG_RAY_LAUNCH_CONFIG, ''m5.large''),
            (TAG_RAY_NODE_NAME, ''ray-mem-head'')] 1]"
    by (simp add: after_first_call_eq events_since_def mem_simps call_simps
          create_or_replace_head_def launch_head_node_def py_not_def Let_def)
  with node_changes_of_run[OF run dec] show ?thesis
    by (simp add: after_first_call_eq mem_simps)
qed

section \<open>Waiting for the head node\<close>

lemma no_update_in: "filter is_update xs = [] \<Longrightarrow> EvUpdate a \<notin> set xs"
  by (auto simp: filter_empty_conv)







section \<open>The commands handed to the updater\<close>

text \<open>
  Claim C6, as amended. Whenever \<open>get_or_create_head_node\<close> starts the updater, the
  updater is built with the initialization commands of the config in every mode; with no
  setup commands when \<open>restart_only\<close> is set and the head setup commands otherwise; and
  with the head start commands unless \<open>no_restart\<close> is set without \<open>restart_only\<close>
  (\<open>restart_only\<close> wins when both are set). With the order in which the spec has the
  updater run them: initialization then start commands for \<open>restart_only\<close>,
  initialization then setup commands for \<open>no_restart\<close>, and all three otherwise.
\<close>

theorem updater_receives_commands:
  assumes run: "get_or_create_head_node env config config_file no_restart restart_only yes
                  override_cluster_name w = (r, config', w')"
    and upd: "EvUpdate a \<in> set (events_since w w')"
  shows "ua_initialization_commands a = initialization_commands config
       \<and> ua_setup_commands a = (if restart_only then [] else head_setup_commands config)
       \<and> ua_ray_start_commands a =
           (if restart_only then head_start_ray_commands config
            else if no_restart then [] else head_start_ray_commands config)
       \<and> updater_command_sequence a =
           (if restart_only
            then initialization_commands config @ head_start_ray_commands config
            else if no_restart
            then initialization_commands config @ head_setup_commands config
            else initialization_commands config @ head_setup_commands config
                   @ head_start_ray_commands config)"
proof -
  let ?w0 = "get_node_provider (provider config) (cluster_name config) w"
  from get_or_create_head_node_config[OF run]
  have cfg: "config'\<lparr>file_mounts := file_mounts config\<rparr> = config" by blast
  have f: "initialization_commands config' = initialization_commands config"
          "head_setup_commands config' = head_setup_commands config"
          "head_start_ray_commands config' = head_start_ray_commands config"
    using arg_cong[OF cfg, of initialization_commands]
          arg_cong[OF cfg, of head_setup_commands]
          arg_cong[OF cfg, of head_start_ray_commands]
    by simp_all
  from run have "\<exists>h rh. a = head_updater_args config' h
                      (fst (select_commands config' no_restart restart_only))
                      (snd (select_commands config' no_restart restart_only)) rh"
  proof (cases rule: get_or_create_head_node_run)
    case (declined e w1)
    from create_or_replace_head_extends[OF declined(1)] obtain evs where
      e: "trace w1 = trace w @ EvGetNodeProvider (provider config) (cluster_name config) # evs"
         "filter is_update evs = []" by blast
    with declined have "trace w' = trace w @ (EvGetNodeProvider (provider config) (cluster_name config) # evs @ [EvCleanup])"
      by simp
    from events_since_append[OF this] upd no_update_in[OF e(2)] show ?thesis by auto
  next
    case (timeout t w1 polls)
    from create_or_replace_head_extends[OF timeout(1)] obtain evs where
      e: "trace w1 = trace w @ EvGetNodeProvider (provider config) (cluster_name config) # evs"
         "filter is_update evs = []" by blast
    with timeout have "trace w' = trace w @ (EvGetNodeProvider (provider config) (cluster_name config) # evs @ polls @ [EvCleanup])"
      by simp
    from events_since_append[OF this] upd no_update_in[OF e(2)]
      no_update_in[OF poll_trace_no_update[OF timeout(4)]] show ?thesis by auto
  next
    case (no_key t w1 polls h)
    from create_or_replace_head_extends[OF no_key(1)] obtain evs where
      e: "trace w1 = trace w @ EvGetNodeProvider (provider config) (cluster_name config) # evs"
         "filter is_update evs = []" by blast
    with no_key have "trace w' = trace w @ (EvGetNodeProvider (provider config) (cluster_name config) # evs @ polls @ [EvCleanup])"
      by simp
    from events_since_append[OF this] upd no_update_in[OF e(2)]
      no_update_in[OF poll_trace_no_update[OF no_key(4)]] show ?thesis by auto
  next
    case (updated t w1 polls h ns ip)
    from create_or_replace_head_extends[OF updated(1)] obtain evs where
      e: "trace w1 = trace w @ EvGetNodeProvider (provider config) (cluster_name config) # evs"
         "filter is_update evs = []" by blast
    with updated have "trace w' = trace w @ (EvGetNodeProvider (provider config) (cluster_name config) # evs @ polls @
         [EvUpdate (head_updater_args config' h
                      (fst (select_commands config' no_restart restart_only))
                      (snd (select_commands config' no_restart restart_only))
                      (hash_runtime_conf env (file_mounts config) config)),
          EvNonTerminatedNodes t ns, ip, EvCleanup])"
      by simp
    from events_since_append[OF this] upd no_update_in[OF e(2)]
      no_update_in[OF poll_trace_no_update[OF updated(4)]] updated(6) show ?thesis by auto
  qed
  then obtain h rh where a: "a = head_updater_args config' h
                      (fst (select_commands config' no_restart restart_only))
                      (snd (select_commands config' no_restart restart_only)) rh"
    by blast
  show ?thesis
    unfolding a
    by (simp add: head_updater_args_def select_commands_def updater_command_sequence_def f)
qed

text \<open>The theorem at work, with \<open>no_restart\<close> set.\<close>

theorem updater_receives_commands_witness:
  "EvUpdate
     \<lparr>ua_node_id = ''head-1'',
      ua_provider_config = \<lparr>ptype = ''mem'', use_internal_ips = False\<rparr>,
      ua_auth_config = [(''ssh_user'', ''ubuntu''), (''ssh_private_key'', ''~/.ssh/key.pem'')],
      ua_cluster_name = ''mem'',
      ua_file_mounts =
        [(''/remote/app'', ''/local/app''),
         (''~/ray_bootstrap_config.yaml'', ''/tmp/ray-bootstrap-0''),
         (''~/ray_bootstrap_key.pem'', ''~/.ssh/key.pem'')],
      ua_initialization_commands = [''echo init''],
      ua_setup_commands = [''pip install ray''],
      ua_ray_start_commands = [],
      ua_runtime_hash = ''runtime'', ua_docker_config = None\<rparr>
     \<in> set (events_since (mem_world [fresh_head])
               (snd (snd (get_or_create_head_node (mem_env 0) mem_config ''cluster.yaml''
                            True False True None (mem_world [fresh_head])))))
   \<and> updater_command_sequence
        \<lparr>ua_node_id = ''head-1'',
         ua_provider_config = \<lparr>ptype = ''mem'', use_internal_ips = False\<rparr>,
         ua_auth_config = [(''ssh_user'', ''ubuntu''), (''ssh_private_key'', ''~/.ssh/key.pem'')],
         ua_cluster_name = ''mem'',
         ua_file_mounts =
           [(''/remote/app'', ''/local/app''),
            (''~/ray_bootstrap_config.yaml'', ''/tmp/ray-bootstrap-0''),
            (''~/ray_bootstrap_key.pem'', ''~/.ssh/key.pem'')],
         ua_initialization_commands = [''echo init''],
         ua_setup_commands = [''pip install ray''],
         ua_ray_start_commands = [],
         ua_runtime_hash = ''runtime'', ua_docker_config = None\<rparr>
      = [''echo init'', ''pip install ray'']"
proof -
  let ?a = "\<lparr>ua_node_id = ''head-1'',
      ua_provider_config = \<lparr>ptype = ''mem'', use_internal_ips = False\<rparr>,
      ua_auth_config = [(''ssh_user'', ''ubuntu''), (''ssh_private_key'', ''~/.ssh/key.pem'')],
      ua_cluster_name = ''mem'',
      ua_file_mounts =
        [(''/remote/app'', ''/local/app''),
         (''~/ray_bootstrap_config.yaml'', ''/tmp/ray-bootstrap-0''),
         (''~/ray_bootstrap_key.pem'', ''~/.ssh/key.pem'')],
      ua_initialization_commands = [''echo init''],
      ua_setup_commands = [''pip install ray''],
      ua_ray_start_commands = [],
      ua_runtime_hash = ''runtime'', ua_docker_config = None\<rparr>"
  let ?run = "get_or_create_head_node (mem_env 0) mem_config ''cluster.yaml''
                            True False True None (mem_world [fresh_head])"
  have run: "?run = (fst ?run, fst (snd ?run), snd (snd ?run))"
    by simp
  have upd: "EvUpdate ?a \<in> set (events_since (mem_world [fresh_head]) (snd (snd ?run)))"
    by (simp add: events_since_def mem_simps call_simps head_simps)
  from updater_receives_commands[OF run upd] upd show ?thesis
    by (simp add: mem_config_def)
qed

text \<open>
  Claim C6 as stated fails for \<open>restart_only\<close>: the updater is handed the
  initialization commands too, so it does not run the start commands only.
\<close>

theorem restart_only_counterexample:
  "filter is_update
     (trace (snd (snd (get_or_create_head_node (mem_env 0) mem_config ''cluster.yaml''
                         False True True None (mem_world [fresh_head])))))
   = [EvUpdate
        \<lparr>ua_node_id = ''head-1'',
         ua_provider_config = \<lparr>ptype = ''mem'', use_internal_ips = False\<rparr>,
         ua_auth_config = [(''ssh_user'', ''ubuntu''), (''ssh_private_key'', ''~/.ssh/key.pem'')],
         ua_cluster_name = ''mem'',
         ua_file_mounts =
           [(''/remote/app'', ''/local/app''),
            (''~/ray_bootstrap_config.yaml'', ''/tmp/ray-bootstrap-0''),
            (''~/ray_bootstrap_key.pem'', ''~/.ssh/key.pem'')],
         ua_initialization_commands = [''echo init''],
         ua_setup_commands = [],
         ua_ray_start_commands = [''ray start --head''],
         ua_runtime_hash = ''runtime'', ua_docker_config = None\<rparr>]
   \<and> updater_command_sequence
        \<lparr>ua_node_id = ''head-1'',
         ua_provider_config = \<lparr>ptype = ''mem'', use_internal_ips = False\<rparr>,
         ua_auth_config = [(''ssh_user'', ''ubuntu''), (''ssh_private_key'', ''~/.ssh/key.pem'')],
         ua_cluster_name = ''mem'',
         ua_file_mounts =
           [(''/remote/app'', ''/local/app''),
            (''~/ray_bootstrap_config.yaml'', ''/tmp/ray-bootstrap-0''),
            (''~/ray_bootstrap_key.pem'', ''~/.ssh/key.pem'')],
         ua_initialization_commands = [''echo init''],
         ua_setup_commands = [],
         ua_ray_start_commands = [''ray start --head''],
         ua_runtime_hash = ''runtime'', ua_docker_config = None\<rparr>
      = [''echo init'', ''ray start --head'']
   \<and> head_start_ray_commands mem_config = [''ray start --head'']"
  by (simp add: mem_simps call_simps head_simps updater_command_sequence_def)

section \<open>Resolving a config through the cache\<close>

text \<open>
  Claim C5, as amended. Let \<open>key\<close> be the cache path of the prepared config. If caching
  is allowed and the file \<open>key\<close> exists and decodes, \<open>_bootstrap_config\<close> returns the
  decoded entry and leaves the world as it is: no validation, no bootstrap, nothing
  written. If caching is allowed and the file exists but does not decode, the decoder's
  error is raised; nothing catches it. If caching is not allowed or the file is absent,
  the config is validated, the provider type is looked up, the provider's bootstrap is
  called once and, when caching is allowed, its result is written under \<open>key\<close>; the only
  errors are those of validation and of an unknown provider type.
\<close>

theorem resolve_with_cache:
  assumes "key = config_cache_key env (prepare_config env config)"
  shows "(\<not> no_config_cache \<and> map_of (files w) key = Some content
            \<and> json_loads env content = Some cached
          \<longrightarrow> private_bootstrap_config env config no_config_cache w = (Inr cached, w))
     \<and> (\<not> no_config_cache \<and> map_of (files w) key = Some content
            \<and> json_loads env content = None
          \<longrightarrow> private_bootstrap_config env config no_config_cache w = (Inl JSONDecodeError, w))
     \<and> (no_config_cache \<or> map_of (files w) key = None
          \<longrightarrow> (case private_bootstrap_config env config no_config_cache w of
                 (Inl e, w') \<Rightarrow>
                   w' = w
                   \<and> (e = ConfigInvalid \<and> \<not> validate_config env (prepare_config env config)
                      \<or> e = NotImplementedError
                         \<and> validate_config env (prepare_config env config)
                         \<and> \<not> node_providers env (ptype (provider (prepare_config env config))))
               | (Inr resolved, w') \<Rightarrow>
                   validate_config env (prepare_config env config)
                   \<and> node_providers env (ptype (provider (prepare_config env config)))
                   \<and> resolved = fst (provider_bootstrap_config env (prepare_config env config)
                                       (pstate w))
                   \<and> trace w' = trace w @ [EvBootstrapConfig (prepare_config env config)]
                   \<and> files w' = (if no_config_cache then files w
                                 else AList.update key (json_dumps env resolved) (files w))))"
  using assms
  by (auto simp: private_bootstrap_config_def os_path_exists_def read_file_def write_file_def
        call_bootstrap_config_def world_log_simps Let_def
      split: prod.splits sum.splits option.splits if_splits)

text \<open>The theorem at work: a cache hit, and a first resolution that fills the cache.\<close>

theorem resolve_with_cache_witness:
  "private_bootstrap_config (mem_env 0) mem_config False
     ((mem_world [])\<lparr>files := [(''/tmp/ray-config-mem'', ''config:mem'')]\<rparr>)
   = (Inr mem_config, (mem_world [])\<lparr>files := [(''/tmp/ray-config-mem'', ''config:mem'')]\<rparr>)
   \<and> private_bootstrap_config (mem_env 0) mem_config False (mem_world [])
   = (Inr mem_config,
      (mem_world [])\<lparr>files := [(''/tmp/ray-config-mem'', ''config:mem'')],
                     trace := [EvBootstrapConfig mem_config]\<rparr>)"
proof -
  have k: "''/tmp/ray-config-mem'' = config_cache_key (mem_env 0) (prepare_config (mem_env 0) mem_config)"
    by (simp add: config_cache_key_def mem_env_def mem_config_def)
  note t = resolve_with_cache[OF k, of False _ "''config:mem''" mem_config]
  have a: "private_bootstrap_config (mem_env 0) mem_config False
     ((mem_world [])\<lparr>files := [(''/tmp/ray-config-mem'', ''config:mem'')]\<rparr>)
   = (Inr mem_config, (mem_world [])\<lparr>files := [(''/tmp/ray-config-mem'', ''config:mem'')]\<rparr>)"
    using t[of "(mem_world [])\<lparr>files := [(''/tmp/ray-config-mem'', ''config:mem'')]\<rparr>"]
    by (simp add: mem_env_def)
  have b: "private_bootstrap_config (mem_env 0) mem_config False (mem_world [])
   = (Inr mem_config,
      (mem_world [])\<lparr>files := [(''/tmp/ray-config-mem'', ''config:mem'')],
                     trace := [EvBootstrapConfig mem_config]\<rparr>)"
    by (simp add: private_bootstrap_config_def os_path_exists_def read_file_def write_file_def
        call_bootstrap_config_def log_def config_cache_key_def Let_def mem_simps)
  from a b show ?thesis by simp
qed

text \<open>
  Claim C5 as stated fails on a corrupted entry: the call raises instead of falling back
  to the full resolution.
\<close>

theorem corrupted_cache_counterexample:
  "private_bootstrap_config (mem_env 0) mem_config False
     ((mem_world [])\<lparr>files := [(''/tmp/ray-config-mem'', ''{truncated'')]\<rparr>)
   = (Inl JSONDecodeError, (mem_world [])\<lparr>files := [(''/tmp/ray-config-mem'', ''{truncated'')]\<rparr>)"
  by (simp add: private_bootstrap_config_def os_path_exists_def read_file_def
        config_cache_key_def Let_def mem_simps)

section \<open>The command \<open>exec_cluster\<close> sends when asked to stop the cluster\<close>

text \<open>
  Claim C9 does not hold of the code: the stop sequence is appended to the user's command
  with no separator, so the last word of the user's command and \<open>ray stop\<close> are fused
  into one shell word.
\<close>

theorem stop_command_fused:
  "stop_command (Some ''python train.py'') True False ''auto''
   = (Some ''python train.pyray stop; ray teardown ~/ray_bootstrap_config.yaml --yes --workers-only; sudo shutdown -h now'',
      False)"
  by (simp add: stop_command_def py_bool_def py_not_def)

section \<open>The precondition of \<open>rsync\<close>\<close>

text \<open>
  Claim C10. When exactly one of \<open>source\<close> and \<open>target\<close> is given (the other being
  \<open>None\<close> or empty), \<open>rsync\<close> raises the assertion error and leaves the world as it
  found it: no cache file written, no provider or updater called. When both or neither
  are given, whatever happens next is not that assertion error.
\<close>

theorem rsync_needs_both_or_neither:
  "(py_bool source \<noteq> py_bool target
      \<longrightarrow> rsync env config_file source target override_cluster_name down all_nodes w
          = (Inl (AssertionError ''Must either provide both or neither source and target.''), w))
   \<and> (py_bool source = py_bool target
      \<longrightarrow> (\<forall>msg. fst (rsync env config_file source target override_cluster_name down all_nodes w)
                   \<noteq> Inl (AssertionError msg)))"
proof (intro conjI impI allI)
  assume "py_bool source \<noteq> py_bool target"
  then show "rsync env config_file source target override_cluster_name down all_nodes w
          = (Inl (AssertionError ''Must either provide both or neither source and target.''), w)"
    by (simp add: rsync_def)
next
  fix msg
  assume eq: "py_bool source = py_bool target"
  show "fst (rsync env config_file source target override_cluster_name down all_nodes w)
                   \<noteq> Inl (AssertionError msg)"
    using eq
    by (auto simp: rsync_def rsync_resolved_def private_bootstrap_config_def Let_def
          private_get_head_node.simps[of _ _ _ _ False]
          split: prod.splits sum.splits option.splits if_splits)
qed

text \<open>The theorem at work: a source without a target, and neither of them.\<close>

theorem rsync_needs_both_or_neither_witness:
  "rsync (mem_env 0) ''cluster.yaml'' (Some ''/data'') None None False False
     (mem_world [fresh_head])
   = (Inl (AssertionError ''Must either provide both or neither source and target.''),
      mem_world [fresh_head])
   \<and> fst (rsync (mem_env 0) ''cluster.yaml'' None None None False False (mem_world [fresh_head]))
       \<noteq> Inl (AssertionError ''Must either provide both or neither source and target.'')"
  using rsync_needs_both_or_neither[of "Some ''/data''" None "mem_env 0" "''cluster.yaml''"
          None False False "mem_world [fresh_head]"]
        rsync_needs_both_or_neither[of None None "mem_env 0" "''cluster.yaml''"
          None False False "mem_world [fresh_head]"]
  by (simp add: py_bool_def py_not_def)

section \<open>The teardown loop\<close>

text \<open>
  The loop of lines 184 to 189 and the relation \<open>teardown_converges\<close>, which follows the
  spec's words, describe the same runs.
\<close>

lemma teardown_converges_loop:
  "teardown_converges env config wo k A w r w' \<Longrightarrow>
   teardown_loop env config wo k A w = Some (r, w')"
proof (induction rule: teardown_converges.induct)
  case (nothing_left w)
  show ?case by (simp add: teardown_loop.simps)
next
  case (round A w A1 w1 r w')
  then show ?case by (subst teardown_loop.simps) simp
next
  case (failed A w e w')
  then show ?case by (subst teardown_loop.simps) simp
qed

lemma teardown_loop_converges_aux:
  assumes "teardown_loop env config wo k A w = Some y"
  shows "teardown_converges env config wo k A w (fst y) (snd y)"
proof (rule teardown_loop.raw_induct
         [where P = "\<lambda>env config wo k A w y. teardown_converges env config wo k A w (fst y) (snd y)",
          OF _ assms])
  fix loop :: "'a env \<Rightarrow> cluster_config \<Rightarrow> bool \<Rightarrow> bool \<Rightarrow> node_id list \<Rightarrow> 'a world
                 \<Rightarrow> ((error + unit) \<times> 'a world) option"
    and env config wo k A w y
  assume IH: "\<And>env config wo k A w y. loop env config wo k A w = Some y \<Longrightarrow>
                teardown_converges env config wo k A w (fst y) (snd y)"
    and step: "(if A = [] then Some (Inr (), w)
      else case remaining_nodes env config wo k (sleep 1 (call_terminate_nodes env A w)) of
           (Inl e, w1) \<Rightarrow> Some (Inl e, w1)
           | (Inr A1, w1) \<Rightarrow> loop env config wo k A1 w1) = Some y"
  show "teardown_converges env config wo k A w (fst y) (snd y)"
  proof (cases "A = []")
    case True
    with step show ?thesis by (auto intro: teardown_converges.nothing_left)
  next
    case False
    obtain r1 w1 where rn: "remaining_nodes env config wo k (sleep 1 (call_terminate_nodes env A w)) = (r1, w1)"
      by (cases "remaining_nodes env config wo k (sleep 1 (call_terminate_nodes env A w))")
    show ?thesis
    proof (cases r1)
      case (Inl e)
      with step False rn have "y = (Inl e, w1)" by simp
      with False rn Inl show ?thesis by (auto intro: teardown_converges.failed)
    next
      case (Inr A1)
      with step False rn have "loop env config wo k A1 w1 = Some y" by simp
      from IH[OF this] False rn Inr show ?thesis
        by (auto intro: teardown_converges.round)
    qed
  qed
qed

lemma teardown_loop_iff:
  "teardown_loop env config wo k A w = Some (r, w') \<longleftrightarrow>
   teardown_converges env config wo k A w r w'"
  using teardown_converges_loop teardown_loop_converges_aux[of env config wo k A w "(r, w')"]
  by auto

lemma remaining_nodes_trace:
  "remaining_nodes env config wo k w = (r, w') \<Longrightarrow>
   \<exists>ws evs. trace w' = trace w @ EvNonTerminatedNodes [(TAG_RAY_NODE_TYPE, NODE_TYPE_WORKER)] ws # evs
      \<and> filter is_node_change evs = [] \<and> clock w' = clock w"
  by (auto simp: remaining_nodes_def call_non_terminated_nodes_def random_sample_def
        world_log_simps split: prod.splits sum.splits if_splits)

lemma teardown_converges_exit:
  "teardown_converges env config wo k A w r w' \<Longrightarrow> r = Inr () \<Longrightarrow>
   (A = [] \<and> w' = w)
   \<or> (\<exists>A0 w0. A0 \<noteq> []
         \<and> remaining_nodes env config wo k (sleep 1 (call_terminate_nodes env A0 w0)) = (Inr [], w'))"
proof (induction rule: teardown_converges.induct)
  case (nothing_left w)
  then show ?case by simp
next
  case (round A w A1 w1 r w')
  from round.IH[OF round.prems] show ?case
  proof
    assume "A1 = [] \<and> w' = w1"
    with round.hyps(1,2) show ?thesis by blast
  next
    assume "\<exists>A0 w0. A0 \<noteq> []
         \<and> remaining_nodes env config wo k (sleep 1 (call_terminate_nodes env A0 w0)) = (Inr [], w')"
    then show ?thesis by blast
  qed
next
  case (failed A w e w')
  then show ?case by simp
qed

lemma teardown_converges_round:
  "teardown_converges env config wo k A w r w' \<Longrightarrow> A \<noteq> [] \<Longrightarrow>
   \<exists>ws evs. trace w' = trace w @ EvTerminateNodes A # EvSleep 1
               # EvNonTerminatedNodes [(TAG_RAY_NODE_TYPE, NODE_TYPE_WORKER)] ws # evs"
proof (induction rule: teardown_converges.induct)
  case (nothing_left w)
  then show ?case by simp
next
  case (round A w A1 w1 r w')
  from remaining_nodes_trace[OF round.hyps(2)] obtain ws evs where
    t: "trace w1 = trace w @ EvTerminateNodes A # EvSleep 1
               # EvNonTerminatedNodes [(TAG_RAY_NODE_TYPE, NODE_TYPE_WORKER)] ws # evs"
    by (auto simp: sleep_def call_terminate_nodes_def world_log_simps)
  show ?case
  proof (cases "A1 = []")
    case True
    with round.hyps(3) have "w' = w1" by (auto elim: teardown_converges.cases)
    with t show ?thesis by blast
  next
    case False
    from round.IH[OF False] obtain ws' evs' where
      "trace w' = trace w1 @ EvTerminateNodes A1 # EvSleep 1
               # EvNonTerminatedNodes [(TAG_RAY_NODE_TYPE, NODE_TYPE_WORKER)] ws' # evs'"
      by blast
    with t show ?thesis by simp
  qed
next
  case (failed A w e w')
  from remaining_nodes_trace[OF failed.hyps(2)] show ?case
    by (auto simp: sleep_def call_terminate_nodes_def world_log_simps)
qed


lemma lingering_worker_rounds:
  "pstate w = [(''worker-1'', [(TAG_RAY_NODE_TYPE, NODE_TYPE_WORKER)], Some k)] \<Longrightarrow>
   \<exists>w'. teardown_loop (mem_env lag) config True False [''worker-1''] w = Some (Inr (), w')
      \<and> trace w' = trace w @ events_since w w'
      \<and> length (filter is_node_change (events_since w w')) = Suc k
      \<and> clock w' = clock w + Suc k"
proof (induction k arbitrary: w)
  case 0
  then show ?case
    apply (subst teardown_loop.simps)
    apply (simp add: remaining_nodes_def call_simps mem_simps events_since_def
             teardown_loop.simps[of _ _ _ _ "[]"])
    done
next
  case (Suc k)
  have "\<exists>w1. remaining_nodes (mem_env lag) config True False
                   (sleep 1 (call_terminate_nodes (mem_env lag) [''worker-1''] w))
            = (Inr [''worker-1''], w1)
          \<and> pstate w1 = [(''worker-1'', [(TAG_RAY_NODE_TYPE, NODE_TYPE_WORKER)], Some k)]
          \<and> trace w1 = trace w @ [EvTerminateNodes [''worker-1''], EvSleep 1,
              EvNonTerminatedNodes [(TAG_RAY_NODE_TYPE, NODE_TYPE_WORKER)] [''worker-1'']]
          \<and> clock w1 = clock w + 1"
    using Suc.prems by (simp add: remaining_nodes_def call_simps mem_simps)
  then obtain w1 where
    rn: "remaining_nodes (mem_env lag) config True False
                   (sleep 1 (call_terminate_nodes (mem_env lag) [''worker-1''] w))
            = (Inr [''worker-1''], w1)"
    and p1: "pstate w1 = [(''worker-1'', [(TAG_RAY_NODE_TYPE, NODE_TYPE_WORKER)], Some k)]"
    and t1: "trace w1 = trace w @ [EvTerminateNodes [''worker-1''], EvSleep 1,
              EvNonTerminatedNodes [(TAG_RAY_NODE_TYPE, NODE_TYPE_WORKER)] [''worker-1'']]"
    and c1: "clock w1 = clock w + 1"
    by blast
  from Suc.IH[OF p1] obtain w' where
    l: "teardown_loop (mem_env lag) config True False [''worker-1''] w1 = Some (Inr (), w')"
       "trace w' = trace w1 @ events_since w1 w'"
       "length (filter is_node_change (events_since w1 w')) = Suc k"
       "clock w' = clock w1 + Suc k"
    by blast
  have loop: "teardown_loop (mem_env lag) config True False [''worker-1''] w = Some (Inr (), w')"
    by (subst teardown_loop.simps) (simp add: rn l(1) del: One_nat_def)
  have tr: "trace w' = trace w @ ([EvTerminateNodes [''worker-1''], EvSleep 1,
              EvNonTerminatedNodes [(TAG_RAY_NODE_TYPE, NODE_TYPE_WORKER)] [''worker-1'']]
              @ events_since w1 w')"
    using l(2) t1 by simp
  have ev: "events_since w w' = [EvTerminateNodes [''worker-1''], EvSleep 1,
              EvNonTerminatedNodes [(TAG_RAY_NODE_TYPE, NODE_TYPE_WORKER)] [''worker-1'']]
              @ events_since w1 w'"
    by (rule events_since_append[OF tr])
  show ?case
    using loop tr l(3,4) c1 by (simp add: ev)
qed

lemma teardown_unbounded:
  "\<exists>w'. teardown_loop (mem_env n) mem_config True False [''worker-1'']
           (mem_world [mem_worker ''worker-1'']) = Some (Inr (), w')
      \<and> length (filter is_node_change (trace w')) = n + 1
      \<and> clock w' = n + 1"
proof (cases n)
  case 0
  then show ?thesis
    apply (subst teardown_loop.simps)
    apply (simp add: remaining_nodes_def call_simps mem_simps
             teardown_loop.simps[of _ _ _ _ "[]"])
    done
next
  case (Suc k)
  let ?w = "mem_world [mem_worker ''worker-1'']"
  have "\<exists>w1. remaining_nodes (mem_env n) mem_config True False
                   (sleep 1 (call_terminate_nodes (mem_env n) [''worker-1''] ?w))
            = (Inr [''worker-1''], w1)
          \<and> pstate w1 = [(''worker-1'', [(TAG_RAY_NODE_TYPE, NODE_TYPE_WORKER)], Some k)]
          \<and> trace w1 = [EvTerminateNodes [''worker-1''], EvSleep 1,
              EvNonTerminatedNodes [(TAG_RAY_NODE_TYPE, NODE_TYPE_WORKER)] [''worker-1'']]
          \<and> clock w1 = 1"
    using Suc by (simp add: remaining_nodes_def call_simps mem_simps)
  then obtain w1 where
    rn: "remaining_nodes (mem_env n) mem_config True False
                   (sleep 1 (call_terminate_nodes (mem_env n) [''worker-1''] ?w))
            = (Inr [''worker-1''], w1)"
    and p1: "pstate w1 = [(''worker-1'', [(TAG_RAY_NODE_TYPE, NODE_TYPE_WORKER)], Some k)]"
    and t1: "trace w1 = [EvTerminateNodes [''worker-1''], EvSleep 1,
              EvNonTerminatedNodes [(TAG_RAY_NODE_TYPE, NODE_TYPE_WORKER)] [''worker-1'']]"
    and c1: "clock w1 = 1"
    by blast
  from lingering_worker_rounds[OF p1, of n mem_config] obtain w' where
    l: "teardown_loop (mem_env n) mem_config True False [''worker-1''] w1 = Some (Inr (), w')"
       "trace w' = trace w1 @ events_since w1 w'"
       "length (filter is_node_change (events_since w1 w')) = Suc k"
       "clock w' = clock w1 + Suc k"
    by blast
  have loop: "teardown_loop (mem_env n) mem_config True False [''worker-1''] ?w = Some (Inr (), w')"
    by (subst teardown_loop.simps) (simp add: rn l(1) del: One_nat_def)
  show ?thesis
    using loop l(2,3,4) t1 c1 Suc by simp
qed

lemma unresponsive_never_converges:
  "teardown_converges env config wo k A w r w' \<Longrightarrow>
   env = unresponsive_env \<Longrightarrow> wo \<Longrightarrow> \<not> k \<Longrightarrow> A = [''worker-1''] \<Longrightarrow>
   pstate w = [mem_worker ''worker-1''] \<Longrightarrow> False"
proof (induction rule: teardown_converges.induct)
  case (nothing_left w)
  then show ?case by simp
next
  case (round A w A1 w1 r w')
  from round.hyps(2) round.prems
  have "A1 = [''worker-1'']" "pstate w1 = [mem_worker ''worker-1'']"
    by (auto simp: remaining_nodes_def call_simps mem_simps unresponsive_env_def)
  with round.IH round.prems show ?case by simp
next
  case (failed A w e w')
  then show ?case
    by (auto simp: remaining_nodes_def call_simps mem_simps unresponsive_env_def)
qed

lemma teardown_diverges:
  "teardown_loop unresponsive_env mem_config True False [''worker-1'']
     (mem_world [mem_worker ''worker-1'']) = None"
proof (cases "teardown_loop unresponsive_env mem_config True False [''worker-1'']
     (mem_world [mem_worker ''worker-1''])")
  case None
  then show ?thesis .
next
  case (Some y)
  from teardown_loop_converges_aux[OF Some]
       unresponsive_never_converges[of unresponsive_env mem_config True False "[''worker-1'']"
         "mem_world [mem_worker ''worker-1'']" "fst y" "snd y"]
  show ?thesis by (simp add: mem_world_def)
qed

lemma remaining_nodes_empty:
  "remaining_nodes env config wo False w = (Inr [], w') \<Longrightarrow>
   trace w' = trace w @
     (if wo then [EvNonTerminatedNodes [(TAG_RAY_NODE_TYPE, NODE_TYPE_WORKER)] []]
      else [EvNonTerminatedNodes [(TAG_RAY_NODE_TYPE, NODE_TYPE_WORKER)] [],
            EvNonTerminatedNodes [(TAG_RAY_NODE_TYPE, NODE_TYPE_HEAD)] []])"
  by (auto simp: remaining_nodes_def call_non_terminated_nodes_def world_log_simps
        split: prod.splits sum.splits if_splits)

text \<open>
  Claim C3. The loop of \<open>teardown_cluster\<close> is the loop the spec describes (first
  conjunct). It returns normally only from an empty target set: either the set was
  empty from the start, or the last thing the loop did was to ask the provider again
  and get an empty target set (second conjunct); without \<open>keep_min_workers\<close> the target
  set is the provider's own listing, so the last calls of the run are listings that
  came back empty (third conjunct). Every round with a non-empty target set asks for
  the termination of all of it, sleeps one second and asks the provider again (fourth
  conjunct). Nothing bounds the number of rounds: a provider that keeps a terminated
  node in its listing for \<open>n\<close> more queries makes the loop run \<open>n + 1\<close> rounds and
  \<open>n + 1\<close> seconds (fifth conjunct), and with a provider that never removes the node
  the loop does not return at all (sixth conjunct). The one other way out of the loop
  is an error raised while asking again, rule \<open>failed\<close> of \<open>teardown_converges\<close>; it
  is not a return of the loop.
\<close>

theorem teardown_convergence:
  "(teardown_loop env config workers_only keep_min_workers A w = Some (r, w')
      \<longleftrightarrow> teardown_converges env config workers_only keep_min_workers A w r w')
   \<and> (teardown_loop env config workers_only keep_min_workers A w = Some (Inr (), w')
      \<longrightarrow> (A = [] \<and> w' = w)
          \<or> (\<exists>A0 w0. A0 \<noteq> []
                \<and> remaining_nodes env config workers_only keep_min_workers
                      (sleep 1 (call_terminate_nodes env A0 w0)) = (Inr [], w')))
   \<and> (A \<noteq> [] \<and> teardown_loop env config workers_only False A w = Some (Inr (), w')
      \<longrightarrow> (\<exists>evs. trace w' = evs @
            (if workers_only
             then [EvNonTerminatedNodes [(TAG_RAY_NODE_TYPE, NODE_TYPE_WORKER)] []]
             else [EvNonTerminatedNodes [(TAG_RAY_NODE_TYPE, NODE_TYPE_WORKER)] [],
                   EvNonTerminatedNodes [(TAG_RAY_NODE_TYPE, NODE_TYPE_HEAD)] []])))
   \<and> (A \<noteq> [] \<and> teardown_loop env config workers_only keep_min_workers A w = Some (r, w')
      \<longrightarrow> (\<exists>ws evs. trace w' = trace w @ EvTerminateNodes A # EvSleep 1
                        # EvNonTerminatedNodes [(TAG_RAY_NODE_TYPE, NODE_TYPE_WORKER)] ws # evs))
   \<and> (\<forall>n. \<exists>w1. teardown_loop (mem_env n) mem_config True False [''worker-1'']
                   (mem_world [mem_worker ''worker-1'']) = Some (Inr (), w1)
              \<and> length (filter is_node_change (trace w1)) = n + 1
              \<and> clock w1 = n + 1)
   \<and> teardown_loop unresponsive_env mem_config True False [''worker-1'']
        (mem_world [mem_worker ''worker-1'']) = None"
proof (intro conjI impI allI)
  show "teardown_loop env config workers_only keep_min_workers A w = Some (r, w')
      \<longleftrightarrow> teardown_converges env config workers_only keep_min_workers A w r w'"
    by (rule teardown_loop_iff)
next
  assume "teardown_loop env config workers_only keep_min_workers A w = Some (Inr (), w')"
  then have "teardown_converges env config workers_only keep_min_workers A w (Inr ()) w'"
    by (simp add: teardown_loop_iff)
  from teardown_converges_exit[OF this refl]
  show "(A = [] \<and> w' = w)
          \<or> (\<exists>A0 w0. A0 \<noteq> []
                \<and> remaining_nodes env config workers_only keep_min_workers
                      (sleep 1 (call_terminate_nodes env A0 w0)) = (Inr [], w'))" .
next
  assume a: "A \<noteq> [] \<and> teardown_loop env config workers_only False A w = Some (Inr (), w')"
  then have "teardown_converges env config workers_only False A w (Inr ()) w'"
    by (simp add: teardown_loop_iff)
  from teardown_converges_exit[OF this refl] a obtain A0 w0 where
    "remaining_nodes env config workers_only False
       (sleep 1 (call_terminate_nodes env A0 w0)) = (Inr [], w')"
    by blast
  from remaining_nodes_empty[OF this]
  show "\<exists>evs. trace w' = evs @
            (if workers_only
             then [EvNonTerminatedNodes [(TAG_RAY_NODE_TYPE, NODE_TYPE_WORKER)] []]
             else [EvNonTerminatedNodes [(TAG_RAY_NODE_TYPE, NODE_TYPE_WORKER)] [],
                   EvNonTerminatedNodes [(TAG_RAY_NODE_TYPE, NODE_TYPE_HEAD)] []])"
    by blast
next
  assume a: "A \<noteq> [] \<and> teardown_loop env config workers_only keep_min_workers A w = Some (r, w')"
  then have "teardown_converges env config workers_only keep_min_workers A w r w'"
    by (simp add: teardown_loop_iff)
  from teardown_converges_round[OF this] a
  show "\<exists>ws evs. trace w' = trace w @ EvTerminateNodes A # EvSleep 1
                        # EvNonTerminatedNodes [(TAG_RAY_NODE_TYPE, NODE_TYPE_WORKER)] ws # evs"
    by blast
next
  fix n
  show "\<exists>w1. teardown_loop (mem_env n) mem_config True False [''worker-1'']
                   (mem_world [mem_worker ''worker-1'']) = Some (Inr (), w1)
              \<and> length (filter is_node_change (trace w1)) = n + 1
              \<and> clock w1 = n + 1"
    by (rule teardown_unbounded)
next
  show "teardown_loop unresponsive_env mem_config True False [''worker-1'']
        (mem_world [mem_worker ''worker-1'']) = None"
    by (rule teardown_diverges)
qed

text \<open>The theorem at work: one worker, and a provider that removes it at once.\<close>

theorem teardown_convergence_witness:
  "teardown_loop (mem_env 0) mem_config True False [''worker-1'']
     (mem_world [mem_worker ''worker-1''])
   = Some (Inr (),
       \<lparr>pstate = [], clock = 1, files = [], answers = [], rng = [],
        trace = [EvTerminateNodes [''worker-1''], EvSleep 1,
                 EvNonTerminatedNodes [(TAG_RAY_NODE_TYPE, ''worker'')] []]\<rparr>)
   \<and> teardown_converges (mem_env 0) mem_config True False [''worker-1'']
       (mem_world [mem_worker ''worker-1'']) (Inr ())
       \<lparr>pstate = [], clock = 1, files = [], answers = [], rng = [],
        trace = [EvTerminateNodes [''worker-1''], EvSleep 1,
                 EvNonTerminatedNodes [(TAG_RAY_NODE_TYPE, ''worker'')] []]\<rparr>
   \<and> (\<exists>A0 w0. A0 \<noteq> []
         \<and> remaining_nodes (mem_env 0) mem_config True False
              (sleep 1 (call_terminate_nodes (mem_env 0) A0 w0))
            = (Inr [],
               \<lparr>pstate = [], clock = 1, files = [], answers = [], rng = [],
                trace = [EvTerminateNodes [''worker-1''], EvSleep 1,
                         EvNonTerminatedNodes [(TAG_RAY_NODE_TYPE, ''worker'')] []]\<rparr>))"
proof -
  let ?W = "\<lparr>pstate = [], clock = 1, files = [], answers = [], rng = [],
        trace = [EvTerminateNodes [''worker-1''], EvSleep 1,
                 EvNonTerminatedNodes [(TAG_RAY_NODE_TYPE, ''worker'')] []]\<rparr> :: mem_node list world"
  have run: "teardown_loop (mem_env 0) mem_config True False [''worker-1'']
     (mem_world [mem_worker ''worker-1'']) = Some (Inr (), ?W)"
    apply (subst teardown_loop.simps)
    apply (simp add: remaining_nodes_def call_simps mem_simps teardown_loop.simps[of _ _ _ _ "[]"])
    done
  from teardown_convergence[of "mem_env 0" mem_config True False "[''worker-1'']"
         "mem_world [mem_worker ''worker-1'']" "Inr ()" ?W] run
  show ?thesis by (simp add: NODE_TYPE_WORKER_def)
qed

section \<open>Keeping \<open>min_workers\<close> workers through a teardown\<close>

text \<open>
  Claim C8 does not hold of the code. \<open>remaining_nodes\<close> draws a new random sample in
  every round, from all the workers the provider still lists, those already asked to
  terminate among them. Three workers, \<open>min_workers = 1\<close>, and a provider that lists a
  terminated node for one more query: the first round asks for the termination of \<open>a\<close>
  and \<open>b\<close>, the second, drawing again from \<open>a\<close>, \<open>b\<close> and \<open>c\<close>, for that of \<open>c\<close> and
  \<open>a\<close>. All three workers have been asked to terminate, and the next listing shows no
  worker at all.
\<close>

theorem keep_min_workers_resampled:
  "teardown_nodes (mem_env 1) mem_config True True
     ((mem_world [mem_worker ''a'', mem_worker ''b'', mem_worker ''c''])\<lparr>rng := [0, 0, 2, 0]\<rparr>)
   = Some (Inr (), mem_config,
       \<lparr>pstate = [(''c'', [(TAG_RAY_NODE_TYPE, ''worker'')], Some 0)],
        clock = 2, files = [], answers = [], rng = [],
        trace =
          [EvGetNodeProvider \<lparr>ptype = ''mem'', use_internal_ips = False\<rparr> ''mem'',
           EvNonTerminatedNodes [(TAG_RAY_NODE_TYPE, ''worker'')] [''a'', ''b'', ''c''],
           EvTerminateNodes [''a'', ''b''], EvSleep 1,
           EvNonTerminatedNodes [(TAG_RAY_NODE_TYPE, ''worker'')] [''a'', ''b'', ''c''],
           EvTerminateNodes [''c'', ''a''], EvSleep 1,
           EvNonTerminatedNodes [(TAG_RAY_NODE_TYPE, ''worker'')] [''c''],
           EvCleanup]\<rparr>)
   \<and> fst (non_terminated_nodes (mem_env 1) [(TAG_RAY_NODE_TYPE, NODE_TYPE_WORKER)]
           [(''c'', [(TAG_RAY_NODE_TYPE, ''worker'')], Some 0)]) = []
   \<and> min_workers mem_config = Some 1"
proof -
  let ?tags = "[(TAG_RAY_NODE_TYPE, ''worker'')]"
  let ?t0 = "[EvGetNodeProvider \<lparr>ptype = ''mem'', use_internal_ips = False\<rparr> ''mem'',
              EvNonTerminatedNodes ?tags [''a'', ''b'', ''c'']]"
  let ?t1 = "?t0 @ [EvTerminateNodes [''a'', ''b''], EvSleep 1,
              EvNonTerminatedNodes ?tags [''a'', ''b'', ''c'']]"
  let ?t2 = "?t1 @ [EvTerminateNodes [''c'', ''a''], EvSleep 1,
              EvNonTerminatedNodes ?tags [''c'']]"
  let ?W1 = "\<lparr>pstate = [(''a'', ?tags, None), (''b'', ?tags, None), (''c'', ?tags, None)],
              clock = 0, files = [], answers = [], rng = [2, 0], trace = ?t0\<rparr>
             :: mem_node list world"
  let ?W2 = "\<lparr>pstate = [(''a'', ?tags, Some 0), (''b'', ?tags, Some 0), (''c'', ?tags, None)],
              clock = 1, files = [], answers = [], rng = [], trace = ?t1\<rparr>
             :: mem_node list world"
  let ?W3 = "\<lparr>pstate = [(''c'', ?tags, Some 0)],
              clock = 2, files = [], answers = [], rng = [], trace = ?t2\<rparr>
             :: mem_node list world"
  have s1: "sample_from [''a'', ''b'', ''c''] 2 [0, 0, 2, 0] = ([''a'', ''b''], [2, 0])"
    by (simp add: numeral_2_eq_2)
  have s2: "sample_from [''a'', ''b'', ''c''] 2 [2, 0] = ([''c'', ''a''], [])"
    by (simp add: numeral_2_eq_2)
  have r1: "remaining_nodes (mem_env 1) mem_config True True
              (get_node_provider (provider mem_config) (cluster_name mem_config)
                 ((mem_world [mem_worker ''a'', mem_worker ''b'', mem_worker ''c''])
                    \<lparr>rng := [0, 0, 2, 0]\<rparr>))
            = (Inr [''a'', ''b''], ?W1)"
    by (simp add: remaining_nodes_def random_sample_def call_simps mem_simps s1
          del: sample_from.simps)
  have r2: "remaining_nodes (mem_env 1) mem_config True True
              (sleep 1 (call_terminate_nodes (mem_env 1) [''a'', ''b''] ?W1))
            = (Inr [''c'', ''a''], ?W2)"
    by (simp add: remaining_nodes_def random_sample_def call_simps mem_simps s2
          del: sample_from.simps)
  have r3: "remaining_nodes (mem_env 1) mem_config True True
              (sleep 1 (call_terminate_nodes (mem_env 1) [''c'', ''a''] ?W2))
            = (Inr [], ?W3)"
    by (simp add: remaining_nodes_def random_sample_def call_simps mem_simps)
  have l3: "teardown_loop (mem_env 1) mem_config True True [] ?W3 = Some (Inr (), ?W3)"
    by (subst teardown_loop.simps) simp
  have l2: "teardown_loop (mem_env 1) mem_config True True [''c'', ''a''] ?W2
            = Some (Inr (), ?W3)"
    by (subst teardown_loop.simps) (simp only: r3 l3 list.simps if_False prod.case sum.case)
  have l1: "teardown_loop (mem_env 1) mem_config True True [''a'', ''b''] ?W1
            = Some (Inr (), ?W3)"
    by (subst teardown_loop.simps) (simp only: r2 l2 list.simps if_False prod.case sum.case)
  have run: "teardown_nodes (mem_env 1) mem_config True True
               ((mem_world [mem_worker ''a'', mem_worker ''b'', mem_worker ''c''])
                  \<lparr>rng := [0, 0, 2, 0]\<rparr>)
             = Some (Inr (), mem_config, call_cleanup (mem_env 1) ?W3)"
    unfolding teardown_nodes_def
    by (simp only: r1 l1 prod.case sum.case option.case)
  have c: "call_cleanup (mem_env 1) ?W3 = ?W3\<lparr>trace := ?t2 @ [EvCleanup]\<rparr>"
    by (simp add: call_simps mem_simps)
  have n: "fst (non_terminated_nodes (mem_env 1) [(TAG_RAY_NODE_TYPE, NODE_TYPE_WORKER)]
           [(''c'', [(TAG_RAY_NODE_TYPE, ''worker'')], Some 0)]) = []"
    by (simp add: mem_simps)
  have m: "min_workers mem_config = Some 1"
    by (simp add: mem_simps)
  show ?thesis
    unfolding run c using n m by simp
qed

section \<open>What the operations do to the config they are given\<close>

text \<open>
  Each operation returns, next to its result, the caller's config as the call leaves
  it. \<open>_get_head_node\<close> changes it only through the reconciliation it runs when
  \<open>create_if_needed\<close> is set and no head node is listed.
\<close>

lemma private_get_head_node_found:
  "private_get_head_node env config cf ocn False w = (r, config', w') \<Longrightarrow> config' = config"
  by (auto simp: private_get_head_node.simps[of _ _ _ _ False] Let_def
        split: prod.splits if_splits)

lemma inject_bootstrap_files_outcome:
  "inject_bootstrap_files env c rc w = (r, c', w') \<Longrightarrow>
   (r = Inl (KeyError ''ssh_private_key'')
      \<and> ptype (provider c) \<noteq> ''kubernetes''
      \<and> map_of (auth c) ''ssh_private_key'' = None
      \<and> c' = c\<lparr>file_mounts := AList.update ''~/ray_bootstrap_config.yaml''
                   (named_temporary_file env ''ray-bootstrap-'') (file_mounts c)\<rparr>)
   \<or> (r = Inr ()
      \<and> (ptype (provider c) = ''kubernetes''
            \<and> c' = c\<lparr>file_mounts := AList.update ''~/ray_bootstrap_config.yaml''
                         (named_temporary_file env ''ray-bootstrap-'') (file_mounts c)\<rparr>
          \<or> ptype (provider c) \<noteq> ''kubernetes''
            \<and> (\<exists>key. map_of (auth c) ''ssh_private_key'' = Some key
                 \<and> c' = c\<lparr>file_mounts := AList.update ''~/ray_bootstrap_key.pem'' key
                            (AList.update ''~/ray_bootstrap_config.yaml''
                               (named_temporary_file env ''ray-bootstrap-'')
                               (file_mounts c))\<rparr>)))"
  by (auto simp: inject_bootstrap_files_def write_file_def Let_def split: if_splits option.splits)

lemma get_or_create_head_node_outcome:
  assumes run: "get_or_create_head_node env config cf nr ro yes ocn w = (r, config', w')"
  shows "((r = Inl Abort \<or> r = Inl (RuntimeError ''Failed to create head node.''))
      \<and> config' = config \<and> filter is_update (events_since w w') = [])
   \<or> (r = Inl (KeyError ''ssh_private_key'')
      \<and> ptype (provider config) \<noteq> ''kubernetes''
      \<and> map_of (auth config) ''ssh_private_key'' = None
      \<and> config' = config\<lparr>file_mounts := AList.update ''~/ray_bootstrap_config.yaml''
                   (named_temporary_file env ''ray-bootstrap-'') (file_mounts config)\<rparr>
      \<and> filter is_update (events_since w w') = [])
   \<or> ((r = Inr () \<or> r = Inl (SystemExit 1))
      \<and> (\<exists>a. filter is_update (events_since w w') = [EvUpdate a]
             \<and> ua_file_mounts a = file_mounts config')
      \<and> (ptype (provider config) = ''kubernetes''
            \<and> config' = config\<lparr>file_mounts := AList.update ''~/ray_bootstrap_config.yaml''
                         (named_temporary_file env ''ray-bootstrap-'') (file_mounts config)\<rparr>
          \<or> ptype (provider config) \<noteq> ''kubernetes''
            \<and> (\<exists>key. map_of (auth config) ''ssh_private_key'' = Some key
                 \<and> config' = config\<lparr>file_mounts := AList.update ''~/ray_bootstrap_key.pem'' key
                            (AList.update ''~/ray_bootstrap_config.yaml''
                               (named_temporary_file env ''ray-bootstrap-'')
                               (file_mounts config))\<rparr>)))"
proof -
  let ?w0 = "get_node_provider (provider config) (cluster_name config) w"
  obtain r1 w1 where a: "create_or_replace_head env config nr yes ?w0 = (r1, w1)"
    by (cases "create_or_replace_head env config nr yes ?w0")
  obtain nodes p where q: "non_terminated_nodes env [(TAG_RAY_NODE_TYPE, NODE_TYPE_HEAD)] (pstate ?w0) = (nodes, p)"
    by (cases "non_terminated_nodes env [(TAG_RAY_NODE_TYPE, NODE_TYPE_HEAD)] (pstate ?w0)")
  from create_or_replace_head_cases[OF q a] obtain evs where
    e: "trace w1 = trace ?w0 @ evs" "filter is_update evs = []"
       "r1 = Inl Abort \<or> (\<exists>t. r1 = Inr t)"
    by blast
  have t0: "trace ?w0 = trace w @ [EvGetNodeProvider (provider config) (cluster_name config)]"
    by (simp add: get_node_provider_def world_log_simps)
  show ?thesis
  proof (cases r1)
    case (Inl e1)
    with e(3) have ab: "r1 = Inl Abort" by auto
    with run a have x: "r = Inl Abort" "config' = config" "w' = call_cleanup env w1"
      by (auto simp: get_or_create_head_node_def head_node_body_def)
    have "trace w' = trace w @ (EvGetNodeProvider (provider config) (cluster_name config) # evs @ [EvCleanup])"
      using x(3) e(1) t0 by (simp add: call_cleanup_def world_log_simps)
    then have "events_since w w' = EvGetNodeProvider (provider config) (cluster_name config) # evs @ [EvCleanup]"
      by (rule events_since_append)
    with e(2) x show ?thesis by simp
  next
    case (Inr t)
    obtain r2 w2 where b: "wait_for_head env t (clock w1) w1 = (r2, w2)"
      by (cases "wait_for_head env t (clock w1) w1")
    from wait_for_head_trace[OF b] obtain polls where
      p: "trace w2 = trace w1 @ polls"
         "poll_trace t polls (case r2 of Inr h \<Rightarrow> Some h | Inl e \<Rightarrow> None)"
         "\<forall>e. r2 = Inl e \<longrightarrow> e = RuntimeError ''Failed to create head node.''"
      by auto
    note pu = poll_trace_no_update[OF p(2)]
    show ?thesis
    proof (cases r2)
      case e2: (Inl e)
      with p(3) have "e = RuntimeError ''Failed to create head node.''" by simp
      with run a Inr b e2 have x: "r = Inl (RuntimeError ''Failed to create head node.'')"
        "config' = config" "w' = call_cleanup env w2"
        by (auto simp: get_or_create_head_node_def head_node_body_def)
      have "trace w' = trace w @ (EvGetNodeProvider (provider config) (cluster_name config)
                                    # evs @ polls @ [EvCleanup])"
        using x(3) e(1) t0 p(1) by (simp add: call_cleanup_def world_log_simps)
      then have "events_since w w' = EvGetNodeProvider (provider config) (cluster_name config)
                                    # evs @ polls @ [EvCleanup]"
        by (rule events_since_append)
      with e(2) pu x show ?thesis by simp
    next
      case h2: (Inr h)
      obtain r3 c3 w3 where c: "inject_bootstrap_files env config (make_remote_config config nr) w2 = (r3, c3, w3)"
        by (cases "inject_bootstrap_files env config (make_remote_config config nr) w2") auto
      note i = inject_bootstrap_files_frame[OF c]
      note o = inject_bootstrap_files_outcome[OF c]
      show ?thesis
      proof (cases r3)
        case e3: (Inl e)
        with i have "e = KeyError ''ssh_private_key''" by auto
        with run a Inr b h2 c e3 have x: "r = Inl (KeyError ''ssh_private_key'')"
          "config' = c3" "w' = call_cleanup env w3"
          by (auto simp: get_or_create_head_node_def head_node_body_def Let_def)
        have "trace w' = trace w @ (EvGetNodeProvider (provider config) (cluster_name config)
                                    # evs @ polls @ [EvCleanup])"
          using x(3) e(1) t0 p(1) i by (simp add: call_cleanup_def world_log_simps)
        then have "events_since w w' = EvGetNodeProvider (provider config) (cluster_name config)
                                    # evs @ polls @ [EvCleanup]"
          by (rule events_since_append)
        with e(2) pu have u: "filter is_update (events_since w w') = []" by simp
        from o e3 x(2) have "ptype (provider config) \<noteq> ''kubernetes''
            \<and> map_of (auth config) ''ssh_private_key'' = None
            \<and> config' = config\<lparr>file_mounts := AList.update ''~/ray_bootstrap_config.yaml''
                   (named_temporary_file env ''ray-bootstrap-'') (file_mounts config)\<rparr>"
          by auto
        with x(1) u show ?thesis by blast
      next
        case u3: (Inr u)
        let ?a = "head_updater_args c3 h (fst (select_commands c3 nr ro))
               (snd (select_commands c3 nr ro)) (hash_runtime_conf env (file_mounts config) config)"
        obtain r4 w4 where d: "update_head_node env c3 h t (fst (select_commands c3 nr ro))
               (snd (select_commands c3 nr ro)) (hash_runtime_conf env (file_mounts config) config) w3 = (r4, w4)"
          by (cases "update_head_node env c3 h t (fst (select_commands c3 nr ro))
               (snd (select_commands c3 nr ro)) (hash_runtime_conf env (file_mounts config) config) w3")
        from update_head_node_trace[OF d] obtain ns ip where
          u: "trace w4 = trace w3 @ [EvUpdate ?a, EvNonTerminatedNodes t ns, ip]"
             "ip = EvInternalIp h \<or> ip = EvExternalIp h" "r4 = Inr () \<or> r4 = Inl (SystemExit 1)"
          by blast
        from run a Inr b h2 c u3 d have res: "r = r4" "config' = c3" "w' = call_cleanup env w4"
          by (auto simp: get_or_create_head_node_def head_node_body_def Let_def split: prod.splits)
        have "trace w' = trace w @ (EvGetNodeProvider (provider config) (cluster_name config)
                 # evs @ polls @ [EvUpdate ?a, EvNonTerminatedNodes t ns, ip, EvCleanup])"
          using res(3) u(1) i p(1) e(1) t0 by (simp add: call_cleanup_def world_log_simps)
        then have "events_since w w' = EvGetNodeProvider (provider config) (cluster_name config)
                 # evs @ polls @ [EvUpdate ?a, EvNonTerminatedNodes t ns, ip, EvCleanup]"
          by (rule events_since_append)
        with e(2) pu u(2) have f: "filter is_update (events_since w w') = [EvUpdate ?a]"
          by auto
        have fm: "ua_file_mounts ?a = file_mounts config'"
          using res(2) by (simp add: head_updater_args_def)
        from res(1) u(3) have rr: "r = Inr () \<or> r = Inl (SystemExit 1)" by simp
        from o u3 res(2) have "ptype (provider config) = ''kubernetes''
            \<and> config' = config\<lparr>file_mounts := AList.update ''~/ray_bootstrap_config.yaml''
                         (named_temporary_file env ''ray-bootstrap-'') (file_mounts config)\<rparr>
          \<or> ptype (provider config) \<noteq> ''kubernetes''
            \<and> (\<exists>key. map_of (auth config) ''ssh_private_key'' = Some key
                 \<and> config' = config\<lparr>file_mounts := AList.update ''~/ray_bootstrap_key.pem'' key
                            (AList.update ''~/ray_bootstrap_config.yaml''
                               (named_temporary_file env ''ray-bootstrap-'')
                               (file_mounts config))\<rparr>)"
          by auto
        with rr f fm show ?thesis by blast
      qed
    qed
  qed
qed

lemma private_get_head_node_config_exact:
  assumes "private_get_head_node env config cf ocn create w = (r, config', w')"
  shows "config' =
     (if create \<and> fst (non_terminated_nodes env [(TAG_RAY_NODE_TYPE, NODE_TYPE_HEAD)] (pstate w)) = []
      then fst (snd (get_or_create_head_node env config cf False False True ocn
                 (call_cleanup env
                    (snd (call_non_terminated_nodes env [(TAG_RAY_NODE_TYPE, NODE_TYPE_HEAD)]
                            (get_node_provider (provider config) (cluster_name config) w))))))
      else config)"
proof (cases create)
  case False
  with assms have "config' = config" by (simp add: private_get_head_node_found)
  with False show ?thesis by simp
next
  case True
  obtain nodes w1 where q: "call_non_terminated_nodes env [(TAG_RAY_NODE_TYPE, NODE_TYPE_HEAD)]
             (get_node_provider (provider config) (cluster_name config) w) = (nodes, w1)"
    by (cases "call_non_terminated_nodes env [(TAG_RAY_NODE_TYPE, NODE_TYPE_HEAD)]
             (get_node_provider (provider config) (cluster_name config) w)")
  then have n: "fst (non_terminated_nodes env [(TAG_RAY_NODE_TYPE, NODE_TYPE_HEAD)] (pstate w)) = nodes"
    by (auto simp: call_non_terminated_nodes_def get_node_provider_def world_log_simps
          split: prod.splits)
  show ?thesis
  proof (cases "length nodes > 0")
    case l: True
    with assms True q have "config' = config"
      by (simp add: private_get_head_node.simps[of _ _ _ _ True] Let_def)
    with l n show ?thesis by auto
  next
    case l: False
    obtain r1 c1 w2 where g: "get_or_create_head_node env config cf False False True ocn
                                (call_cleanup env w1) = (r1, c1, w2)"
      by (cases "get_or_create_head_node env config cf False False True ocn (call_cleanup env w1)")
    have "config' = c1"
    proof (cases r1)
      case (Inl e)
      with assms True q l g show ?thesis
        by (simp add: private_get_head_node.simps[of _ _ _ _ True] Let_def)
    next
      case (Inr u)
      with assms True q l g
      have "private_get_head_node env c1 cf ocn False w2 = (r, config', w')"
        by (simp add: private_get_head_node.simps[of _ _ _ _ True] Let_def)
      then show ?thesis by (rule private_get_head_node_found)
    qed
    with True l n q g show ?thesis by simp
  qed
qed

lemma exec_resolved_config_exact:
  assumes "exec_resolved env config cf cmd run_env screen tmux stop start ocn pf wo w
             = (r, config', w')"
  shows "config' =
     (if start \<and> fst (non_terminated_nodes env [(TAG_RAY_NODE_TYPE, NODE_TYPE_HEAD)] (pstate w)) = []
      then fst (snd (get_or_create_head_node env config cf False False True ocn
                 (call_cleanup env
                    (snd (call_non_terminated_nodes env [(TAG_RAY_NODE_TYPE, NODE_TYPE_HEAD)]
                            (get_node_provider (provider config) (cluster_name config) w))))))
      else config)"
proof -
  obtain r1 c1 w1 where h: "private_get_head_node env config cf ocn start w = (r1, c1, w1)"
    by (cases "private_get_head_node env config cf ocn start w")
  from assms h have "config' = c1"
    by (auto simp: exec_resolved_def Let_def split: sum.splits prod.splits)
  with private_get_head_node_config_exact[OF h] show ?thesis by simp
qed

lemma rsync_resolved_config:
  assumes "rsync_resolved env config cf source target ocn down all_nodes w = (r, config', w')"
  shows "config' = (if all_nodes
                    then (case ocn of None \<Rightarrow> config | Some n \<Rightarrow> config\<lparr>cluster_name := n\<rparr>)
                    else config)"
  using assms
  by (auto simp: rsync_resolved_def private_get_worker_nodes_def Let_def
        dest!: private_get_head_node_found
        split: sum.splits prod.splits if_splits option.splits)

lemma teardown_nodes_config:
  "teardown_nodes env config wo k w = Some (r, config', w') \<Longrightarrow> config' = config"
  by (auto simp: teardown_nodes_def split: sum.splits prod.splits option.splits)

text \<open>
  Claim C7, with the two places where the code writes to the config it was given.

  Head-node reconciliation (first conjunct) ends in one of three ways. It stops before
  the bootstrap files are injected (the operator declines, or the poll times out): the
  config is as it was and no updater was started. It reaches line 343 but the provider
  type is not \<open>kubernetes\<close> and \<open>auth\<close> has no \<open>ssh_private_key\<close>: the call raises
  \<open>KeyError\<close>, no updater was started, and \<open>file_mounts\<close> has gained the entry
  \<open>~/ray_bootstrap_config.yaml\<close>. Or it reaches the update phase: exactly one updater was
  started, with the \<open>file_mounts\<close> the call leaves behind, which are those of the config
  with the entry \<open>~/ray_bootstrap_config.yaml\<close> added and, unless the provider type is
  \<open>kubernetes\<close>, the entry \<open>~/ray_bootstrap_key.pem\<close> for the private key. No other
  field changes.

  The teardown of the nodes leaves the config as it was (second conjunct).
  \<open>exec_cluster\<close> leaves it as it was unless \<open>start\<close> is set and no head node is listed;
  then the config is what the reconciliation that \<open>_get_head_node\<close> runs leaves behind
  (third conjunct). \<open>rsync\<close> leaves it as it was, except that with \<open>all_nodes\<close> and an
  \<open>override_cluster_name\<close> the helper \<open>_get_worker_nodes\<close> assigns that name to
  \<open>cluster_name\<close> (fourth conjunct).
\<close>

theorem config_frame:
  "(get_or_create_head_node env config config_file no_restart restart_only yes
        override_cluster_name w = (r1, config1, w1)
      \<longrightarrow> ((r1 = Inl Abort \<or> r1 = Inl (RuntimeError ''Failed to create head node.''))
            \<and> config1 = config \<and> filter is_update (events_since w w1) = [])
          \<or> (r1 = Inl (KeyError ''ssh_private_key'')
            \<and> ptype (provider config) \<noteq> ''kubernetes''
            \<and> map_of (auth config) ''ssh_private_key'' = None
            \<and> config1 = config\<lparr>file_mounts :=
                  AList.update ''~/ray_bootstrap_config.yaml''
                    (named_temporary_file env ''ray-bootstrap-'') (file_mounts config)\<rparr>
            \<and> filter is_update (events_since w w1) = [])
          \<or> ((r1 = Inr () \<or> r1 = Inl (SystemExit 1))
            \<and> (\<exists>a. filter is_update (events_since w w1) = [EvUpdate a]
                   \<and> ua_file_mounts a = file_mounts config1)
            \<and> (ptype (provider config) = ''kubernetes''
                  \<and> config1 = config\<lparr>file_mounts :=
                       AList.update ''~/ray_bootstrap_config.yaml''
                         (named_temporary_file env ''ray-bootstrap-'') (file_mounts config)\<rparr>
                \<or> ptype (provider config) \<noteq> ''kubernetes''
                  \<and> (\<exists>key. map_of (auth config) ''ssh_private_key'' = Some key
                       \<and> config1 = config\<lparr>file_mounts :=
                            AList.update ''~/ray_bootstrap_key.pem'' key
                              (AList.update ''~/ray_bootstrap_config.yaml''
                                 (named_temporary_file env ''ray-bootstrap-'')
                                 (file_mounts config))\<rparr>))))
   \<and> (teardown_nodes env config workers_only keep_min_workers w = Some (r2, config2, w2)
      \<longrightarrow> config2 = config)
   \<and> (exec_resolved env config config_file cmd run_env screen tmux stop start
          override_cluster_name port_forward with_output w = (r3, config3, w3)
      \<longrightarrow> config3 =
           (if start \<and> fst (non_terminated_nodes env [(TAG_RAY_NODE_TYPE, NODE_TYPE_HEAD)]
                              (pstate w)) = []
            then fst (snd (get_or_create_head_node env config config_file False False True
                             override_cluster_name
                             (call_cleanup env
                                (snd (call_non_terminated_nodes env
                                        [(TAG_RAY_NODE_TYPE, NODE_TYPE_HEAD)]
                                        (get_node_provider (provider config)
                                           (cluster_name config) w))))))
            else config))
   \<and> (rsync_resolved env config config_file source target override_cluster_name down
          all_nodes w = (r4, config4, w4)
      \<longrightarrow> config4 = (if all_nodes
                     then (case override_cluster_name of
                             None \<Rightarrow> config
                           | Some n \<Rightarrow> config\<lparr>cluster_name := n\<rparr>)
                     else config))"
proof (intro conjI impI)
  assume "get_or_create_head_node env config config_file no_restart restart_only yes
        override_cluster_name w = (r1, config1, w1)"
  then show "((r1 = Inl Abort \<or> r1 = Inl (RuntimeError ''Failed to create head node.''))
            \<and> config1 = config \<and> filter is_update (events_since w w1) = [])
          \<or> (r1 = Inl (KeyError ''ssh_private_key'')
            \<and> ptype (provider config) \<noteq> ''kubernetes''
            \<and> map_of (auth config) ''ssh_private_key'' = None
            \<and> config1 = config\<lparr>file_mounts :=
                  AList.update ''~/ray_bootstrap_config.yaml''
                    (named_temporary_file env ''ray-bootstrap-'') (file_mounts config)\<rparr>
            \<and> filter is_update (events_since w w1) = [])
          \<or> ((r1 = Inr () \<or> r1 = Inl (SystemExit 1))
            \<and> (\<exists>a. filter is_update (events_since w w1) = [EvUpdate a]
                   \<and> ua_file_mounts a = file_mounts config1)
            \<and> (ptype (provider config) = ''kubernetes''
                  \<and> config1 = config\<lparr>file_mounts :=
                       AList.update ''~/ray_bootstrap_config.yaml''
                         (named_temporary_file env ''ray-bootstrap-'') (file_mounts config)\<rparr>
                \<or> ptype (provider config) \<noteq> ''kubernetes''
                  \<and> (\<exists>key. map_of (auth config) ''ssh_private_key'' = Some key
                       \<and> config1 = config\<lparr>file_mounts :=
                            AList.update ''~/ray_bootstrap_key.pem'' key
                              (AList.update ''~/ray_bootstrap_config.yaml''
                                 (named_temporary_file env ''ray-bootstrap-'')
                                 (file_mounts config))\<rparr>)))"
    by (rule get_or_create_head_node_outcome)
next
  assume "teardown_nodes env config workers_only keep_min_workers w = Some (r2, config2, w2)"
  then show "config2 = config" by (rule teardown_nodes_config)
next
  assume "exec_resolved env config config_file cmd run_env screen tmux stop start
          override_cluster_name port_forward with_output w = (r3, config3, w3)"
  then show "config3 =
           (if start \<and> fst (non_terminated_nodes env [(TAG_RAY_NODE_TYPE, NODE_TYPE_HEAD)]
                              (pstate w)) = []
            then fst (snd (get_or_create_head_node env config config_file False False True
                             override_cluster_name
                             (call_cleanup env
                                (snd (call_non_terminated_nodes env
                                        [(TAG_RAY_NODE_TYPE, NODE_TYPE_HEAD)]
                                        (get_node_provider (provider config)
                                           (cluster_name config) w))))))
            else config)"
    by (rule exec_resolved_config_exact)
next
  assume "rsync_resolved env config config_file source target override_cluster_name down
          all_nodes w = (r4, config4, w4)"
  then show "config4 = (if all_nodes
                     then (case override_cluster_name of
                             None \<Rightarrow> config
                           | Some n \<Rightarrow> config\<lparr>cluster_name := n\<rparr>)
                     else config)"
    by (rule rsync_resolved_config)
qed

text \<open>
  The theorem at work on the in-memory provider: a reconciliation that replaces an
  out-of-date head, one that the operator declines, one with no private key in \<open>auth\<close>,
  a teardown of one worker, a command run with \<open>start\<close> on a cluster that has a head
  node and on one that has none, and an \<open>rsync\<close> to all nodes of the cluster named
  \<open>other\<close>.
\<close>

theorem config_frame_witness:
  "fst (get_or_create_head_node (mem_env 0) mem_config ''cluster.yaml'' False False True None
          (mem_world [stale_head])) = Inr ()
   \<and> fst (snd (get_or_create_head_node (mem_env 0) mem_config ''cluster.yaml'' False False True
                 None (mem_world [stale_head])))
     = mem_config\<lparr>file_mounts :=
         [(''/remote/app'', ''/local/app''),
          (''~/ray_bootstrap_config.yaml'', ''/tmp/ray-bootstrap-0''),
          (''~/ray_bootstrap_key.pem'', ''~/.ssh/key.pem'')]\<rparr>
   \<and> (\<exists>a. filter is_update
             (events_since (mem_world [stale_head])
                (snd (snd (get_or_create_head_node (mem_env 0) mem_config ''cluster.yaml''
                             False False True None (mem_world [stale_head])))))
            = [EvUpdate a]
          \<and> ua_file_mounts a =
              [(''/remote/app'', ''/local/app''),
               (''~/ray_bootstrap_config.yaml'', ''/tmp/ray-bootstrap-0''),
               (''~/ray_bootstrap_key.pem'', ''~/.ssh/key.pem'')])
   \<and> fst (get_or_create_head_node (mem_env 0) mem_config ''cluster.yaml'' False False False None
          (mem_world [stale_head])) = Inl Abort
   \<and> fst (snd (get_or_create_head_node (mem_env 0) mem_config ''cluster.yaml'' False False False
                 None (mem_world [stale_head]))) = mem_config
   \<and> fst (get_or_create_head_node (mem_env 0) (mem_config\<lparr>auth := [(''ssh_user'', ''ubuntu'')]\<rparr>)
            ''cluster.yaml'' False False True None (mem_world [fresh_head]))
     = Inl (KeyError ''ssh_private_key'')
   \<and> fst (snd (get_or_create_head_node (mem_env 0)
                 (mem_config\<lparr>auth := [(''ssh_user'', ''ubuntu'')]\<rparr>)
                 ''cluster.yaml'' False False True None (mem_world [fresh_head])))
     = mem_config\<lparr>auth := [(''ssh_user'', ''ubuntu'')],
                  file_mounts :=
                    [(''/remote/app'', ''/local/app''),
                     (''~/ray_bootstrap_config.yaml'', ''/tmp/ray-bootstrap-0'')]\<rparr>
   \<and> filter is_update
        (events_since (mem_world [fresh_head])
           (snd (snd (get_or_create_head_node (mem_env 0)
                        (mem_config\<lparr>auth := [(''ssh_user'', ''ubuntu'')]\<rparr>)
                        ''cluster.yaml'' False False True None (mem_world [fresh_head])))))
     = []
   \<and> teardown_nodes (mem_env 0) mem_config True False (mem_world [mem_worker ''worker-1''])
     = Some (Inr (), mem_config,
         \<lparr>pstate = [], clock = 1, files = [], answers = [], rng = [],
          trace = [EvGetNodeProvider \<lparr>ptype = ''mem'', use_internal_ips = False\<rparr> ''mem'',
                   EvNonTerminatedNodes [(TAG_RAY_NODE_TYPE, ''worker'')] [''worker-1''],
                   EvTerminateNodes [''worker-1''], EvSleep 1,
                   EvNonTerminatedNodes [(TAG_RAY_NODE_TYPE, ''worker'')] [],
                   EvCleanup]\<rparr>)
   \<and> fst (snd (exec_resolved (mem_env 0) mem_config ''cluster.yaml'' (Some ''ls'') ''auto''
                  False False False True None None False (mem_world [fresh_head])))
     = mem_config
   \<and> fst (snd (exec_resolved (mem_env 0) mem_config ''cluster.yaml'' (Some ''ls'') ''auto''
                  False False False True None None False (mem_world [])))
     = mem_config\<lparr>file_mounts :=
         [(''/remote/app'', ''/local/app''),
          (''~/ray_bootstrap_config.yaml'', ''/tmp/ray-bootstrap-0''),
          (''~/ray_bootstrap_key.pem'', ''~/.ssh/key.pem'')]\<rparr>
   \<and> fst (snd (rsync_resolved (mem_env 0) mem_config ''cluster.yaml'' None None (Some ''other'')
                  False True (mem_world [fresh_head])))
     = mem_config\<lparr>cluster_name := ''other''\<rparr>"
proof -
  let ?fm = "[(''/remote/app'', ''/local/app''),
          (''~/ray_bootstrap_config.yaml'', ''/tmp/ray-bootstrap-0''),
          (''~/ray_bootstrap_key.pem'', ''~/.ssh/key.pem'')]"
  let ?nokey = "mem_config\<lparr>auth := [(''ssh_user'', ''ubuntu'')]\<rparr>"
  let ?g = "get_or_create_head_node (mem_env 0) mem_config ''cluster.yaml'' False False True
                None (mem_world [stale_head])"
  let ?d = "get_or_create_head_node (mem_env 0) mem_config ''cluster.yaml'' False False False
                None (mem_world [stale_head])"
  let ?k = "get_or_create_head_node (mem_env 0) ?nokey ''cluster.yaml'' False False True
                None (mem_world [fresh_head])"
  let ?e = "exec_resolved (mem_env 0) mem_config ''cluster.yaml'' (Some ''ls'') ''auto''
                  False False False True None None False (mem_world [fresh_head])"
  let ?V = "call_cleanup (mem_env 0)
               (snd (call_non_terminated_nodes (mem_env 0) [(TAG_RAY_NODE_TYPE, NODE_TYPE_HEAD)]
                       (get_node_provider (provider mem_config) (cluster_name mem_config)
                          (mem_world []))))"
  let ?c = "get_or_create_head_node (mem_env 0) mem_config ''cluster.yaml'' False False True
                None ?V"
  let ?x = "exec_resolved (mem_env 0) mem_config ''cluster.yaml'' (Some ''ls'') ''auto''
                  False False False True None None False (mem_world [])"
  let ?s = "rsync_resolved (mem_env 0) mem_config ''cluster.yaml'' None None (Some ''other'')
                  False True (mem_world [fresh_head])"
  let ?W = "\<lparr>pstate = [], clock = 1, files = [], answers = [], rng = [],
          trace = [EvGetNodeProvider \<lparr>ptype = ''mem'', use_internal_ips = False\<rparr> ''mem'',
                   EvNonTerminatedNodes [(TAG_RAY_NODE_TYPE, ''worker'')] [''worker-1''],
                   EvTerminateNodes [''worker-1''], EvSleep 1,
                   EvNonTerminatedNodes [(TAG_RAY_NODE_TYPE, ''worker'')] [],
                   EvCleanup]\<rparr> :: mem_node list world"
  have g: "?g = (fst ?g, fst (snd ?g), snd (snd ?g))" by simp
  have d: "?d = (fst ?d, fst (snd ?d), snd (snd ?d))" by simp
  have k: "?k = (fst ?k, fst (snd ?k), snd (snd ?k))" by simp
  have c: "?c = (fst ?c, fst (snd ?c), snd (snd ?c))" by simp
  have e: "?e = (fst ?e, fst (snd ?e), snd (snd ?e))" by simp
  have e0: "?x = (fst ?x, fst (snd ?x), snd (snd ?x))" by simp
  have s: "?s = (fst ?s, fst (snd ?s), snd (snd ?s))" by simp
  have rg: "fst ?g = Inr ()"
    by (simp add: mem_simps call_simps head_simps)
  have rd: "fst ?d = Inl Abort"
    by (simp add: mem_simps call_simps head_simps)
  have rk: "fst ?k = Inl (KeyError ''ssh_private_key'')"
    by (simp add: mem_simps call_simps head_simps)
  have rc: "fst ?c = Inr ()"
    by (simp add: mem_simps call_simps head_simps)
  have m: "ptype (provider mem_config) \<noteq> ''kubernetes''"
          "map_of (auth mem_config) ''ssh_private_key'' = Some ''~/.ssh/key.pem''"
          "AList.update ''~/ray_bootstrap_key.pem'' ''~/.ssh/key.pem''
             (AList.update ''~/ray_bootstrap_config.yaml''
                (named_temporary_file (mem_env 0) ''ray-bootstrap-'') (file_mounts mem_config))
           = ?fm"
          "AList.update ''~/ray_bootstrap_config.yaml''
                (named_temporary_file (mem_env 0) ''ray-bootstrap-'') (file_mounts ?nokey)
           = [(''/remote/app'', ''/local/app''),
              (''~/ray_bootstrap_config.yaml'', ''/tmp/ray-bootstrap-0'')]"
    by (simp_all add: mem_simps)
  from config_frame[where env = "mem_env 0" and config = mem_config
         and config_file = "''cluster.yaml''" and no_restart = False and restart_only = False
         and yes = True and override_cluster_name = None and w = "mem_world [stale_head]"
         and ?r1.0 = "fst ?g" and ?config1.0 = "fst (snd ?g)" and ?w1.0 = "snd (snd ?g)",
         THEN conjunct1, THEN mp, OF g] rg m(1-3)
  have G: "fst (snd ?g) = mem_config\<lparr>file_mounts := ?fm\<rparr>
     \<and> (\<exists>a. filter is_update (events_since (mem_world [stale_head]) (snd (snd ?g))) = [EvUpdate a]
            \<and> ua_file_mounts a = ?fm)"
    by auto
  from config_frame[where env = "mem_env 0" and config = mem_config
         and config_file = "''cluster.yaml''" and no_restart = False and restart_only = False
         and yes = False and override_cluster_name = None and w = "mem_world [stale_head]"
         and ?r1.0 = "fst ?d" and ?config1.0 = "fst (snd ?d)" and ?w1.0 = "snd (snd ?d)",
         THEN conjunct1, THEN mp, OF d] rd
  have D: "fst (snd ?d) = mem_config"
    by auto
  from config_frame[where env = "mem_env 0" and config = ?nokey
         and config_file = "''cluster.yaml''" and no_restart = False and restart_only = False
         and yes = True and override_cluster_name = None and w = "mem_world [fresh_head]"
         and ?r1.0 = "fst ?k" and ?config1.0 = "fst (snd ?k)" and ?w1.0 = "snd (snd ?k)",
         THEN conjunct1, THEN mp, OF k] rk m(4)
  have K: "fst (snd ?k) = mem_config\<lparr>auth := [(''ssh_user'', ''ubuntu'')],
                  file_mounts :=
                    [(''/remote/app'', ''/local/app''),
                     (''~/ray_bootstrap_config.yaml'', ''/tmp/ray-bootstrap-0'')]\<rparr>
     \<and> filter is_update (events_since (mem_world [fresh_head]) (snd (snd ?k))) = []"
    by auto
  have "\<exists>c. teardown_nodes (mem_env 0) mem_config True False (mem_world [mem_worker ''worker-1''])
     = Some (Inr (), c, ?W)"
    apply (simp add: teardown_nodes_def remaining_nodes_def call_simps mem_simps)
    apply (subst teardown_loop.simps)
    apply (simp add: remaining_nodes_def call_simps mem_simps teardown_loop.simps[of _ _ _ _ "[]"])
    done
  then obtain c' where t: "teardown_nodes (mem_env 0) mem_config True False
       (mem_world [mem_worker ''worker-1'']) = Some (Inr (), c', ?W)" ..
  from config_frame[where env = "mem_env 0" and config = mem_config
         and workers_only = True and keep_min_workers = False
         and w = "mem_world [mem_worker ''worker-1'']"
         and ?r2.0 = "Inr ()" and ?config2.0 = c' and ?w2.0 = ?W,
         THEN conjunct2, THEN conjunct1, THEN mp, OF t]
  have T: "c' = mem_config"
    by simp
  have l: "fst (non_terminated_nodes (mem_env 0) [(TAG_RAY_NODE_TYPE, NODE_TYPE_HEAD)]
                  (pstate (mem_world [fresh_head]))) = [''head-1'']"
          "fst (non_terminated_nodes (mem_env 0) [(TAG_RAY_NODE_TYPE, NODE_TYPE_HEAD)]
                  (pstate (mem_world []))) = []"
    by (simp_all add: mem_simps)
  from config_frame[where env = "mem_env 0" and config = mem_config
         and config_file = "''cluster.yaml''" and override_cluster_name = None
         and w = "mem_world [fresh_head]"
         and cmd = "Some ''ls''" and run_env = "''auto''" and screen = False and tmux = False
         and stop = False and start = True and port_forward = None and with_output = False
         and ?r3.0 = "fst ?e" and ?config3.0 = "fst (snd ?e)" and ?w3.0 = "snd (snd ?e)",
         THEN conjunct2, THEN conjunct2, THEN conjunct1, THEN mp, OF e] l(1)
  have E: "fst (snd ?e) = mem_config"
    by simp
  from config_frame[where env = "mem_env 0" and config = mem_config
         and config_file = "''cluster.yaml''" and no_restart = False and restart_only = False
         and yes = True and override_cluster_name = None and w = ?V
         and ?r1.0 = "fst ?c" and ?config1.0 = "fst (snd ?c)" and ?w1.0 = "snd (snd ?c)",
         THEN conjunct1, THEN mp, OF c] rc m(1-3)
  have C: "fst (snd ?c) = mem_config\<lparr>file_mounts := ?fm\<rparr>"
    by auto
  from config_frame[where env = "mem_env 0" and config = mem_config
         and config_file = "''cluster.yaml''" and override_cluster_name = None
         and w = "mem_world []"
         and cmd = "Some ''ls''" and run_env = "''auto''" and screen = False and tmux = False
         and stop = False and start = True and port_forward = None and with_output = False
         and ?r3.0 = "fst ?x" and ?config3.0 = "fst (snd ?x)" and ?w3.0 = "snd (snd ?x)",
         THEN conjunct2, THEN conjunct2, THEN conjunct1, THEN mp, OF e0] l(2)
  have "fst (snd ?x) = fst (snd ?c)"
    by simp
  with C have E0: "fst (snd ?x) = mem_config\<lparr>file_mounts := ?fm\<rparr>"
    by simp
  from config_frame[where env = "mem_env 0" and config = mem_config
         and config_file = "''cluster.yaml''" and source = None and target = None
         and override_cluster_name = "Some ''other''" and down = False and all_nodes = True
         and w = "mem_world [fresh_head]"
         and ?r4.0 = "fst ?s" and ?config4.0 = "fst (snd ?s)" and ?w4.0 = "snd (snd ?s)",
         THEN conjunct2, THEN conjunct2, THEN conjunct2, THEN mp, OF s]
  have S: "fst (snd ?s) = mem_config\<lparr>cluster_name := ''other''\<rparr>"
    by simp
  from rg G rd D rk K t T E E0 S show ?thesis
    by (simp only: simp_thms)
qed

text \<open>
  Claim C7 as stated fails: a reconciliation that reaches the update phase returns the
  caller's config with two more entries in \<open>file_mounts\<close>.
\<close>

theorem file_mounts_mutated_counterexample:
  "fst (snd (get_or_create_head_node (mem_env 0) mem_config ''cluster.yaml'' False False True
               None (mem_world [fresh_head])))
   = mem_config\<lparr>file_mounts :=
       [(''/remote/app'', ''/local/app''),
        (''~/ray_bootstrap_config.yaml'', ''/tmp/ray-bootstrap-0''),
        (''~/ray_bootstrap_key.pem'', ''~/.ssh/key.pem'')]\<rparr>
   \<and> file_mounts mem_config = [(''/remote/app'', ''/local/app'')]"
  by (simp add: head_simps call_simps mem_simps)

end
